theory Spec2Isabelle
  imports Complex_Main
begin

section \<open>Conventions\<close>

text \<open>
  The program is \<^verbatim>\<open>src/app.js\<close>.  A JavaScript number is modelled by type \<open>real\<close>
  when it is known to be a finite number, and by \<open>real option\<close> where the code can
  also see \<^verbatim>\<open>null\<close>, \<^verbatim>\<open>undefined\<close>, \<^verbatim>\<open>NaN\<close> or an infinity
  (all of them \<open>None\<close>: they are exactly the values \<^verbatim>\<open>Number.isFinite\<close> rejects).
  The rounding of double arithmetic is a parameter of the viewport and label functions
  (section Rounding); the hardness and tier arithmetic is that of the reals.  Array
  indices, ranks and priorities are integers.  The globals of the
  script (\<^verbatim>\<open>currentFilteredData\<close>, \<^verbatim>\<open>controlFilterState\<close>, the chart layout)
  are passed as explicit arguments.
\<close>

section \<open>Hardness scales\<close>

text \<open>\<^verbatim>\<open>HARDNESS_SCALES\<close>: the three anchor points of each country.\<close>

definition GERMANY :: "real list" where
  "GERMANY = [40, 47.5, 55]"

definition HARDNESS_SCALES :: "string \<Rightarrow> real list option" where
  "HARDNESS_SCALES country =
     (if country = ''Germany'' then Some GERMANY
      else if country = ''Japan'' then Some [33, 36, 44]
      else if country = ''China'' then Some [35, 39, 41]
      else None)"

text \<open>
  The body of the \<^verbatim>\<open>if\<close> inside the loop of \<^verbatim>\<open>interpolateScale\<close>, for segment \<open>i\<close>
  (the loop calls it with \<open>Suc i < length fromPts\<close> only).
  Reading \<^verbatim>\<open>toPts\<close> out of range gives \<^verbatim>\<open>undefined\<close> and a zero denominator gives
  \<^verbatim>\<open>NaN\<close> or an infinity; in both cases the result is not a finite number.
\<close>

definition segmentValue :: "nat \<Rightarrow> real \<Rightarrow> real list \<Rightarrow> real list \<Rightarrow> real option" where
  "segmentValue i v fromPts toPts =
     (if Suc i < length toPts \<and> fromPts ! Suc i - fromPts ! i \<noteq> 0 then
        (let t = (v - fromPts ! i) / (fromPts ! Suc i - fromPts ! i)
         in Some (toPts ! i + t * (toPts ! Suc i - toPts ! i)))
      else None)"

text \<open>
  The \<^verbatim>\<open>for\<close> loop of \<^verbatim>\<open>interpolateScale\<close>, from index \<open>i\<close> on:
  \<^verbatim>\<open>i < fromPts.length - 1\<close> is \<open>Suc i < length fromPts\<close> and
  \<^verbatim>\<open>i === fromPts.length - 2\<close> is \<open>Suc (Suc i) = length fromPts\<close>.
\<close>

function interpolateLoop :: "nat \<Rightarrow> real \<Rightarrow> real list \<Rightarrow> real list \<Rightarrow> real option" where
  "interpolateLoop i v fromPts toPts =
     (if Suc i < length fromPts then
        (if v \<le> fromPts ! Suc i \<or> Suc (Suc i) = length fromPts
         then segmentValue i v fromPts toPts
         else interpolateLoop (Suc i) v fromPts toPts)
      else Some v)"
  by pat_completeness auto
termination
  by (relation "measure (\<lambda>(i, v, fromPts, toPts). length fromPts - i)") auto

declare interpolateLoop.simps [simp del]

definition interpolateScale :: "real \<Rightarrow> real list \<Rightarrow> real list \<Rightarrow> real option" where
  "interpolateScale v fromPts toPts = interpolateLoop 0 v fromPts toPts"

text \<open>\<^verbatim>\<open>toGermanScale\<close>; a value that is not finite gives \<^verbatim>\<open>null\<close>.\<close>

definition toGermanScale :: "real option \<Rightarrow> string \<Rightarrow> real option" where
  "toGermanScale value country =
     (case value of
        None \<Rightarrow> None
      | Some v \<Rightarrow>
          (if country = ''Germany'' then Some v
           else case HARDNESS_SCALES country of
                  None \<Rightarrow> Some v
                | Some pts \<Rightarrow> interpolateScale v pts GERMANY))"

section \<open>Rubbers and rank tables\<close>

text \<open>
  The fields of a rubber object that the ranking, viewport and label code reads.
  \<open>x\<close> and \<open>y\<close> are \<^verbatim>\<open>null\<close> (\<open>None\<close>) or a number; the rank fields are
  \<^verbatim>\<open>null\<close> or missing (\<open>None\<close>) or an integer.
\<close>

record rubber =
  name :: string
  abbr :: string
  brand :: string
  x :: "real option"
  y :: "real option"
  spinRank :: "int option"
  speedRank :: "int option"
  controlRank :: "int option"
  controlTotal :: "int option"
  priority :: int
  bestseller :: bool

text \<open>An entry of a ranking file: its \<^verbatim>\<open>brand\<close> and its \<^verbatim>\<open>name\<close>.\<close>

type_synonym rankEntry = "string \<times> string"

record rankings =
  spin :: "rankEntry list"
  speed :: "rankEntry list"
  control :: "rankEntry list"

text \<open>
  The fields of a raw catalogue item that the ranking code depends on.
  \<open>raw_disabled\<close> is \<^verbatim>\<open>raw?.disabled !== undefined\<close>; \<open>raw_abbr\<close> is \<open>None\<close> when the
  item has no \<^verbatim>\<open>abbr\<close>.
\<close>

record rawItem =
  raw_name :: string
  raw_abbr :: "string option"
  raw_manufacturer :: string
  raw_disabled :: bool

text \<open>
  \<^verbatim>\<open>String.prototype.trim\<close> and \<^verbatim>\<open>toLowerCase\<close> on ASCII strings (a \<open>char\<close> is a
  byte; the brand names of the catalogue are ASCII).
\<close>

definition isSpace :: "char \<Rightarrow> bool" where
  "isSpace c = (of_char c \<in> {9, 10, 11, 12, 13, 32 :: nat})"

definition trim :: "string \<Rightarrow> string" where
  "trim s = rev (dropWhile isSpace (rev (dropWhile isSpace s)))"

definition toLowerCase :: "string \<Rightarrow> string" where
  "toLowerCase s =
     map (\<lambda>c. if 65 \<le> (of_char c :: nat) \<and> (of_char c :: nat) \<le> 90
              then char_of (of_char c + 32 :: nat) else c) s"

text \<open>
  The loop of \<^verbatim>\<open>findRubberRank\<close>: \<open>i\<close> is the index of the head of the remaining
  entries.  The result is the 0-based position of the first match, or \<open>-1\<close>.
\<close>

fun findRankFrom :: "int \<Rightarrow> rubber \<Rightarrow> rankEntry list \<Rightarrow> int" where
  "findRankFrom i r [] = -1"
| "findRankFrom i r (entry # rest) =
     (if toLowerCase (trim (fst entry)) \<noteq> toLowerCase (trim (brand r))
      then findRankFrom (i + 1) r rest
      else if snd entry = name r \<or> snd entry = abbr r then i
      else findRankFrom (i + 1) r rest)"

definition findRubberRank :: "rubber \<Rightarrow> rankEntry list \<Rightarrow> int" where
  "findRubberRank r rankingArray = findRankFrom 0 r rankingArray"

section \<open>Loading: ranks, coordinates and priorities\<close>

text \<open>
  The object built for a raw item in the first loop of \<^verbatim>\<open>loadRubberData\<close>
  (\<^verbatim>\<open>abbr: raw.abbr || raw.name\<close>, \<^verbatim>\<open>priority: 999\<close>, \<^verbatim>\<open>bestseller: false\<close>).
\<close>

definition buildRubber :: "rawItem \<Rightarrow> rubber" where
  "buildRubber raw =
     \<lparr> name = raw_name raw,
       abbr = (case raw_abbr raw of
                 None \<Rightarrow> raw_name raw
               | Some a \<Rightarrow> if a = [] then raw_name raw else a),
       brand = raw_manufacturer raw,
       x = None, y = None,
       spinRank = None, speedRank = None, controlRank = None, controlTotal = None,
       priority = 999, bestseller = False \<rparr>"

text \<open>The body of the second loop of \<^verbatim>\<open>loadRubberData\<close>, for one rubber.\<close>

definition assignRanks :: "rankings \<Rightarrow> rankEntry list \<Rightarrow> rankEntry list \<Rightarrow> rubber \<Rightarrow> rubber" where
  "assignRanks rks priorityRanking bestsellerRanking r =
     (let spinTotal = int (length (spin rks));
          speedTotal = int (length (speed rks));
          ctlTotal = int (length (control rks));
          spinIdx = findRubberRank r (spin rks);
          speedIdx = findRubberRank r (speed rks);
          controlIdx = findRubberRank r (control rks);
          popIdx = findRubberRank r priorityRanking;
          bestsellerIdx = findRubberRank r bestsellerRanking
      in r\<lparr> x := if spinIdx \<ge> 0 then Some (real_of_int (spinTotal - spinIdx)) else None,
             y := if speedIdx \<ge> 0 then Some (real_of_int (speedTotal - speedIdx)) else None,
             spinRank := if spinIdx \<ge> 0 then Some (spinIdx + 1) else None,
             speedRank := if speedIdx \<ge> 0 then Some (speedIdx + 1) else None,
             controlRank := if controlIdx \<ge> 0 then Some (controlIdx + 1) else None,
             controlTotal := Some ctlTotal,
             bestseller := bestsellerIdx \<ge> 0,
             priority := if bestsellerIdx \<ge> 0 then bestsellerIdx + 1
                         else if popIdx \<ge> 0 then int (length bestsellerRanking) + popIdx + 1
                         else priority r \<rparr>)"

text \<open>
  The answer to a \<^verbatim>\<open>fetch\<close>: a response that is not \<^verbatim>\<open>ok\<close>, with its status, or
  the parsed body.
\<close>

datatype 'a fetched = NotOk nat | Body 'a

datatype loadError = HttpError nat | IndexNotArray

text \<open>
  \<^verbatim>\<open>loadRubberData\<close>.  \<open>indexResp\<close> is the answer for the index file; its body is
  \<open>None\<close> when the JSON is not an array, and otherwise the raw items collected from
  the listed files (files that fail are skipped by the code).  \<open>rankingsResp\<close> is the
  answer of \<^verbatim>\<open>loadRankings\<close>, which throws when a ranking file is not \<^verbatim>\<open>ok\<close>.  A
  priority or bestseller file that is not \<^verbatim>\<open>ok\<close> counts as the empty table.
  The result is the new value of the global \<^verbatim>\<open>rubberData\<close>.
\<close>

definition tableOf :: "rankEntry list fetched \<Rightarrow> rankEntry list" where
  "tableOf resp = (case resp of NotOk _ \<Rightarrow> [] | Body t \<Rightarrow> t)"

definition loadRubberData ::
  "rawItem list option fetched \<Rightarrow> rankings fetched \<Rightarrow> rankEntry list fetched \<Rightarrow>
   rankEntry list fetched \<Rightarrow> loadError + rubber list" where
  "loadRubberData indexResp rankingsResp priorityResp bestsellerResp =
     (case indexResp of
        NotOk status \<Rightarrow> Inl (HttpError status)
      | Body None \<Rightarrow> Inl IndexNotArray
      | Body (Some rawItems) \<Rightarrow>
          (let data = map buildRubber (filter (\<lambda>raw. \<not> raw_disabled raw) rawItems)
           in case rankingsResp of
                NotOk status \<Rightarrow> Inl (HttpError status)
              | Body rks \<Rightarrow>
                  (let data' = map (assignRanks rks (tableOf priorityResp)
                                      (tableOf bestsellerResp)) data
                   in Inr (filter (\<lambda>r. x r \<noteq> None \<and> y r \<noteq> None) data'))))"

section \<open>Control tiers\<close>

datatype tier = Easy | Med | Hard

record controlFilterState =
  rankMin :: "int option"
  rankMax :: "int option"

text \<open>\<^verbatim>\<open>getControlBoundsFromData\<close>: the least and greatest control rank in \<^verbatim>\<open>rubberData\<close>.\<close>

definition getControlBoundsFromData :: "rubber list \<Rightarrow> (int \<times> int) option" where
  "getControlBoundsFromData rubberData =
     (let ranks = List.map_filter controlRank rubberData
      in if ranks = [] then None else Some (Min (set ranks), Max (set ranks)))"

text \<open>
  The assignments of \<^verbatim>\<open>initControlToggleFilter\<close> to \<^verbatim>\<open>controlFilterState\<close> (the
  filter container is taken to exist in the page): nothing is assigned when the data
  has no control rank.
\<close>

definition initControlToggleFilter :: "controlFilterState \<Rightarrow> rubber list \<Rightarrow> controlFilterState" where
  "initControlToggleFilter st rubberData =
     (case getControlBoundsFromData rubberData of
        None \<Rightarrow> st
      | Some (mn, mx) \<Rightarrow> st\<lparr> rankMin := Some mn, rankMax := Some mx \<rparr>)"

definition getControlTierFromRank :: "controlFilterState \<Rightarrow> int option \<Rightarrow> tier option" where
  "getControlTierFromRank st rank =
     (case (rank, rankMin st, rankMax st) of
        (Some rk, Some mn, Some mx) \<Rightarrow>
          (let totalRanks = mx - mn + 1
           in if totalRanks \<le> 0 then None
              else (let zeroBasedRank = max 0 (min (totalRanks - 1) (rk - mn));
                        pct = real_of_int zeroBasedRank / real_of_int totalRanks
                    in if pct < 0.4 then Some Easy
                       else if pct < 0.8 then Some Med
                       else Some Hard))
      | _ \<Rightarrow> None)"

text \<open>
  The tier in the words of the specification: the 1-based rank is normalised into
  \<open>[0, 1)\<close> over the size of the control table and bucketed at 40% and 80%.
\<close>

definition tierOverTable :: "int \<Rightarrow> int \<Rightarrow> tier" where
  "tierOverTable rk tableSize =
     (let pct = real_of_int (rk - 1) / real_of_int tableSize
      in if pct < 0.4 then Easy else if pct < 0.8 then Med else Hard)"

section \<open>Rounding\<close>

text \<open>
  Every arithmetic operation on doubles returns the rounding of the exact result.  The
  functions of the viewport and of the label thinning take that rounding as their first
  argument \<open>rnd\<close> and apply it to the result of each addition, subtraction,
  multiplication and division, and to the literals that are not doubles (\<^verbatim>\<open>0.05\<close>,
  \<^verbatim>\<open>0.82\<close>); comparisons, \<^verbatim>\<open>Math.min\<close>, \<^verbatim>\<open>Math.max\<close> and \<^verbatim>\<open>Math.abs\<close> are exact.
  What is proved for every \<open>rnd\<close> holds for the arithmetic of the program;
  \<open>exact\<close> is arithmetic without rounding.
\<close>

type_synonym rounding = "real \<Rightarrow> real"

definition exact :: rounding where
  "exact t = t"

text \<open>
  The standard model of rounding to nearest: the relative error of a rounding is at most
  \<open>u\<close>, and rounding is monotone.  Doubles have \<open>u = 2^-53\<close> (outside overflow and
  underflow).
\<close>

definition rounds :: "real \<Rightarrow> rounding \<Rightarrow> bool" where
  "rounds u rnd =
     (0 \<le> u \<and> (\<forall>t. \<bar>rnd t - t\<bar> \<le> u * \<bar>t\<bar>) \<and> (\<forall>s t. s \<le> t \<longrightarrow> rnd s \<le> rnd t))"

section \<open>Axis ranges and autoscale bounds\<close>

text \<open>A range is a two-element array \<^verbatim>\<open>[lo, hi]\<close>.\<close>

type_synonym range = "real \<times> real"

text \<open>The number JavaScript arithmetic sees for a coordinate field (\<^verbatim>\<open>null\<close> counts as 0).\<close>

definition num :: "real option \<Rightarrow> real" where
  "num v = (case v of None \<Rightarrow> 0 | Some a \<Rightarrow> a)"

text \<open>\<^verbatim>\<open>getAutoscaleBounds\<close>: \<open>None\<close> is \<^verbatim>\<open>null\<close>; otherwise the pair of the x and y ranges.\<close>

definition getAutoscaleBounds :: "rounding \<Rightarrow> rubber list \<Rightarrow> (range \<times> range) option" where
  "getAutoscaleBounds rnd rubbers =
     (if rubbers = [] then None
      else (let xs = map (\<lambda>r. num (x r)) rubbers;
                ys = map (\<lambda>r. num (y r)) rubbers;
                minX = Min (set xs); maxX = Max (set xs);
                minY = Min (set ys); maxY = Max (set ys);
                padX = max 0.5 (rnd (rnd (maxX - minX) * rnd 0.05));
                padY = max 0.5 (rnd (rnd (maxY - minY) * rnd 0.05))
            in Some ((rnd (minX - padX), rnd (maxX + padX)),
                     (rnd (minY - padY), rnd (maxY + padY)))))"

definition viewCoversDataBounds :: "rounding \<Rightarrow> rubber list \<Rightarrow> range \<Rightarrow> range \<Rightarrow> bool" where
  "viewCoversDataBounds rnd rubbers xRange yRange =
     (case getAutoscaleBounds rnd rubbers of
        None \<Rightarrow> True
      | Some (bndX, bndY) \<Rightarrow>
          fst xRange \<le> fst bndX \<and> snd xRange \<ge> snd bndX \<and>
          fst yRange \<le> fst bndY \<and> snd yRange \<ge> snd bndY)"

definition clampRangeToBounds :: "range \<Rightarrow> range \<Rightarrow> range" where
  "clampRangeToBounds rng bounds = (max (fst rng) (fst bounds), min (snd rng) (snd bounds))"

section \<open>Zoom\<close>

text \<open>
  \<^verbatim>\<open>computeZoomedRanges\<close>, with the global \<^verbatim>\<open>currentFilteredData\<close> as an argument.
  \<open>None\<close> is \<^verbatim>\<open>null\<close> (the zoom is blocked); otherwise the new x and y ranges.
\<close>

definition computeZoomedRanges ::
  "rounding \<Rightarrow> rubber list \<Rightarrow> range \<Rightarrow> range \<Rightarrow> real \<Rightarrow> real \<Rightarrow> real \<Rightarrow>
   (range \<times> range) option" where
  "computeZoomedRanges rnd currentFilteredData xRange yRange scale anchorFx anchorFy =
     (let xSpan = rnd (snd xRange - fst xRange);
          ySpan = rnd (snd yRange - fst yRange)
      in if xSpan \<le> 0 \<or> ySpan \<le> 0 then None
         else (let autoscaleBounds = getAutoscaleBounds rnd currentFilteredData
               in if scale > 1 \<and> autoscaleBounds \<noteq> None \<and>
                     viewCoversDataBounds rnd currentFilteredData xRange yRange
                  then None
                  else (let xCenter = rnd (fst xRange + rnd (anchorFx * xSpan));
                            yCenter = rnd (fst yRange + rnd (anchorFy * ySpan));
                            clampedScale =
                              (case autoscaleBounds of
                                 None \<Rightarrow> scale
                               | Some (bndX, bndY) \<Rightarrow>
                                   if scale < 1 then
                                     (let fullXSpan = rnd (snd bndX - fst bndX);
                                          fullYSpan = rnd (snd bndY - fst bndY);
                                          minXSpan = rnd (fullXSpan * rnd 0.05);
                                          minYSpan = rnd (fullYSpan * rnd 0.05);
                                          scaleForMinX =
                                            (if xSpan > 0 then rnd (minXSpan / xSpan) else scale);
                                          scaleForMinY =
                                            (if ySpan > 0 then rnd (minYSpan / ySpan) else scale)
                                      in max scale (max scaleForMinX scaleForMinY))
                                   else scale);
                            newXSpan = rnd (xSpan * clampedScale);
                            newYSpan = rnd (ySpan * clampedScale);
                            newXRange = (rnd (xCenter - rnd (anchorFx * newXSpan)),
                                         rnd (xCenter + rnd (rnd (1 - anchorFx) * newXSpan)));
                            newYRange = (rnd (yCenter - rnd (anchorFy * newYSpan)),
                                         rnd (yCenter + rnd (rnd (1 - anchorFy) * newYSpan)))
                        in case autoscaleBounds of
                             None \<Rightarrow> Some (newXRange, newYRange)
                           | Some (bndX, bndY) \<Rightarrow>
                               if clampedScale > 1
                               then Some (clampRangeToBounds newXRange bndX,
                                          clampRangeToBounds newYRange bndY)
                               else Some (newXRange, newYRange))))"

text \<open>
  \<^verbatim>\<open>zoomChart\<close> on the axis ranges of the chart layout (\<open>None\<close>: the chart has no
  layout yet).  \<^verbatim>\<open>applyZoomLayout\<close> hands the new ranges to the plotting library,
  which makes them the ranges of the layout; a blocked zoom touches nothing.
\<close>

definition zoomChart ::
  "rounding \<Rightarrow> rubber list \<Rightarrow> (range \<times> range) option \<Rightarrow> real \<Rightarrow> (range \<times> range) option" where
  "zoomChart rnd currentFilteredData layout scale =
     (case layout of
        None \<Rightarrow> None
      | Some (xaRange, yaRange) \<Rightarrow>
          (case computeZoomedRanges rnd currentFilteredData xaRange yaRange scale 0.5 0.5 of
             None \<Rightarrow> Some (xaRange, yaRange)
           | Some ranges \<Rightarrow> Some ranges))"

text \<open>
  Names for three values inside \<^verbatim>\<open>computeZoomedRanges\<close>, used to state its properties:
  the value of the variable \<^verbatim>\<open>clampedScale\<close>; the new range of one axis as it is
  computed from the scale \<open>c\<close> before any clamp to the bounds; and the pair
  \<^verbatim>\<open>newXRange\<close>, \<^verbatim>\<open>newYRange\<close> before the clamp.
\<close>

definition clampedScaleOf :: "rounding \<Rightarrow> rubber list \<Rightarrow> range \<Rightarrow> range \<Rightarrow> real \<Rightarrow> real" where
  "clampedScaleOf rnd currentFilteredData xRange yRange scale =
     (let xSpan = rnd (snd xRange - fst xRange);
          ySpan = rnd (snd yRange - fst yRange)
      in case getAutoscaleBounds rnd currentFilteredData of
           None \<Rightarrow> scale
         | Some (bndX, bndY) \<Rightarrow>
             if scale < 1 then
               (let fullXSpan = rnd (snd bndX - fst bndX);
                    fullYSpan = rnd (snd bndY - fst bndY);
                    minXSpan = rnd (fullXSpan * rnd 0.05);
                    minYSpan = rnd (fullYSpan * rnd 0.05);
                    scaleForMinX = (if xSpan > 0 then rnd (minXSpan / xSpan) else scale);
                    scaleForMinY = (if ySpan > 0 then rnd (minYSpan / ySpan) else scale)
                in max scale (max scaleForMinX scaleForMinY))
             else scale)"

definition rescaleAxis :: "rounding \<Rightarrow> range \<Rightarrow> real \<Rightarrow> real \<Rightarrow> range" where
  "rescaleAxis rnd rng anchorF c =
     (let span = rnd (snd rng - fst rng);
          center = rnd (fst rng + rnd (anchorF * span));
          newSpan = rnd (span * c)
      in (rnd (center - rnd (anchorF * newSpan)),
          rnd (center + rnd (rnd (1 - anchorF) * newSpan))))"

definition rescaledRanges ::
  "rounding \<Rightarrow> rubber list \<Rightarrow> range \<Rightarrow> range \<Rightarrow> real \<Rightarrow> real \<Rightarrow> real \<Rightarrow> range \<times> range" where
  "rescaledRanges rnd currentFilteredData xRange yRange scale anchorFx anchorFy =
     (rescaleAxis rnd xRange anchorFx (clampedScaleOf rnd currentFilteredData xRange yRange scale),
      rescaleAxis rnd yRange anchorFy (clampedScaleOf rnd currentFilteredData xRange yRange scale))"

text \<open>The data-space point at the fractional position \<open>(fx, fy)\<close> of a window.\<close>

definition pointAt :: "range \<times> range \<Rightarrow> real \<Rightarrow> real \<Rightarrow> real \<times> real" where
  "pointAt w fx fy =
     (fst (fst w) + fx * (snd (fst w) - fst (fst w)),
      fst (snd w) + fy * (snd (snd w) - fst (snd w)))"

section \<open>Thinning of overlapping labels\<close>

text \<open>\<^verbatim>\<open>toPixel\<close> of \<^verbatim>\<open>computeVisibleRubbers\<close>, applied to the coordinates of a rubber.\<close>

definition toPixel :: "rounding \<Rightarrow> range \<Rightarrow> range \<Rightarrow> real \<Rightarrow> real \<Rightarrow> rubber \<Rightarrow> real \<times> real" where
  "toPixel rnd xRange yRange plotWidth plotHeight r =
     (let xSpan = rnd (snd xRange - fst xRange);
          ySpan = rnd (snd yRange - fst yRange)
      in (rnd (rnd (rnd (num (x r) - fst xRange) / xSpan) * plotWidth),
          rnd (rnd (rnd (num (y r) - fst yRange) / ySpan) * plotHeight)))"

text \<open>
  The \<^verbatim>\<open>for\<close> loop over the sorted rubbers, with its two accumulators \<^verbatim>\<open>visible\<close>
  and \<^verbatim>\<open>occupied\<close>.  \<open>minDistX\<close> and \<open>minDistY\<close> stand for the constants
  \<^verbatim>\<open>MIN_DIST_X\<close> and \<^verbatim>\<open>MIN_DIST_Y\<close>.
\<close>

fun thinLoop ::
  "rounding \<Rightarrow> real \<Rightarrow> real \<Rightarrow> (rubber \<Rightarrow> real \<times> real) \<Rightarrow> rubber list \<Rightarrow> rubber list \<Rightarrow>
   (real \<times> real) list \<Rightarrow> rubber list" where
  "thinLoop rnd minDistX minDistY toPx [] visible occupied = visible"
| "thinLoop rnd minDistX minDistY toPx (r # rest) visible occupied =
     (let p = toPx r;
          overlaps = list_ex (\<lambda>occ. \<bar>rnd (fst p - fst occ)\<bar> < minDistX \<and>
                                    \<bar>rnd (snd p - snd occ)\<bar> < minDistY)
                       occupied
      in if \<not> overlaps
         then thinLoop rnd minDistX minDistY toPx rest (visible @ [r]) (occupied @ [p])
         else thinLoop rnd minDistX minDistY toPx rest visible occupied)"

text \<open>
  The part of \<^verbatim>\<open>computeVisibleRubbers\<close> after the ranges and the plot size are known,
  with the two distance thresholds as parameters.  \<^verbatim>\<open>Array.prototype.sort\<close> is
  stable, as \<open>sort_key\<close> is.
\<close>

definition thinLabels ::
  "rounding \<Rightarrow> real \<Rightarrow> real \<Rightarrow> range \<Rightarrow> range \<Rightarrow> real \<Rightarrow> real \<Rightarrow> rubber list \<Rightarrow>
   rubber list" where
  "thinLabels rnd minDistX minDistY xRange yRange plotWidth plotHeight filteredData =
     (let xSpan = rnd (snd xRange - fst xRange);
          ySpan = rnd (snd yRange - fst yRange)
      in if xSpan \<le> 0 \<or> ySpan \<le> 0 then filteredData
         else thinLoop rnd minDistX minDistY (toPixel rnd xRange yRange plotWidth plotHeight)
                (sort_key priority filteredData) [] [])"




text \<open>
  The selection in the words of the specification, on candidates already in priority
  order: an item is accepted iff it is \<open>clear\<close> of every item accepted before it.
\<close>

definition greedyAccept :: "('a \<Rightarrow> 'a \<Rightarrow> bool) \<Rightarrow> 'a list \<Rightarrow> 'a list" where
  "greedyAccept clear cands =
     foldl (\<lambda>accepted c. if (\<forall>a \<in> set accepted. clear c a) then accepted @ [c] else accepted)
       [] cands"

text \<open>
  The distances in x and in y between the pixel positions of two items, as the program
  computes them.  Two items are within the thresholds when both distances are below
  their thresholds, and far enough apart otherwise: when the distance in x is at least
  the x threshold or the distance in y is at least the y threshold.
\<close>

definition pixelGap :: "rounding \<Rightarrow> (rubber \<Rightarrow> real \<times> real) \<Rightarrow> rubber \<Rightarrow> rubber \<Rightarrow> real \<times> real" where
  "pixelGap rnd toPx c a =
     (\<bar>rnd (fst (toPx c) - fst (toPx a))\<bar>, \<bar>rnd (snd (toPx c) - snd (toPx a))\<bar>)"

definition withinThresholds ::
  "rounding \<Rightarrow> real \<Rightarrow> real \<Rightarrow> (rubber \<Rightarrow> real \<times> real) \<Rightarrow> rubber \<Rightarrow> rubber \<Rightarrow> bool" where
  "withinThresholds rnd dx dy toPx c a =
     (fst (pixelGap rnd toPx c a) < dx \<and> snd (pixelGap rnd toPx c a) < dy)"

definition farEnough ::
  "rounding \<Rightarrow> real \<Rightarrow> real \<Rightarrow> (rubber \<Rightarrow> real \<times> real) \<Rightarrow> rubber \<Rightarrow> rubber \<Rightarrow> bool" where
  "farEnough rnd dx dy toPx c a =
     (dx \<le> fst (pixelGap rnd toPx c a) \<or> dy \<le> snd (pixelGap rnd toPx c a))"

section \<open>Example data\<close>

text \<open>A small catalogue and its tables, used to run the definitions on concrete inputs.\<close>

definition rawOf :: "string \<Rightarrow> string \<Rightarrow> rawItem" where
  "rawOf b n = \<lparr> raw_name = n, raw_abbr = None, raw_manufacturer = b, raw_disabled = False \<rparr>"

definition tableCDE :: "rankEntry list" where
  "tableCDE = [(''Xiom'', ''C''), (''Xiom'', ''D''), (''Xiom'', ''E'')]"

definition tableABCDE :: "rankEntry list" where
  "tableABCDE =
     [(''Xiom'', ''A''), (''Xiom'', ''B''), (''Xiom'', ''C''), (''Xiom'', ''D''), (''Xiom'', ''E'')]"

definition exampleRankings :: rankings where
  "exampleRankings = \<lparr> spin = tableCDE, speed = tableCDE, control = tableABCDE \<rparr>"

definition exampleCatalogue :: "rawItem list" where
  "exampleCatalogue = map (rawOf '' xiom'') [''A'', ''B'', ''C'', ''D'', ''E'']"

text \<open>
  The catalogue loaded with the tables above, with \<open>D\<close> in the priority table and
  \<open>E\<close> in the bestseller table.
\<close>

definition exampleData :: "rubber list" where
  "exampleData =
     (case loadRubberData (Body (Some exampleCatalogue)) (Body exampleRankings)
             (Body [(''Xiom'', ''D'')]) (Body [(''Xiom'', ''E'')]) of
        Inr d \<Rightarrow> d
      | Inl _ \<Rightarrow> [])"

definition loadedRubber :: "string \<Rightarrow> int \<Rightarrow> int \<Rightarrow> int \<Rightarrow> bool \<Rightarrow> rubber" where
  "loadedRubber n rk crk prio best =
     \<lparr> name = n, abbr = n, brand = '' xiom'',
       x = Some (real_of_int (3 - rk + 1)), y = Some (real_of_int (3 - rk + 1)),
       spinRank = Some rk, speedRank = Some rk, controlRank = Some crk, controlTotal = Some 5,
       priority = prio, bestseller = best \<rparr>"

text \<open>A rubber given only by its priority and its chart coordinates.\<close>

definition pointRubber :: "int \<Rightarrow> real \<Rightarrow> real \<Rightarrow> rubber" where
  "pointRubber prio px py =
     \<lparr> name = [], abbr = [], brand = [], x = Some px, y = Some py,
       spinRank = None, speedRank = None, controlRank = None, controlTotal = None,
       priority = prio, bestseller = False \<rparr>"

definition twoCorners :: "rubber list" where
  "twoCorners = [pointRubber 1 1 1, pointRubber 2 101 101]"

text \<open>
  An arithmetic in which every result comes out too large by one part in 1024: a
  rounding with relative error \<open>1 / 1024\<close>, to run the error bounds where the rounding is
  not exact.
\<close>

definition inflate :: rounding where
  "inflate t = t * (1025 / 1024)"


section \<open>Hardness conversion\<close>

lemma interpolateScale_three:
  "interpolateScale v [a0, a1, a2] toPts =
     (if v \<le> a1 then segmentValue 0 v [a0, a1, a2] toPts
      else segmentValue 1 v [a0, a1, a2] toPts)"
  by (simp add: interpolateScale_def interpolateLoop.simps [of 0] interpolateLoop.simps [of "Suc 0"])

text \<open>
  Claim C8.  For strictly increasing source anchors \<open>a0 < a1 < a2\<close> and any value \<open>v\<close>,
  the conversion takes the first segment when \<open>v \<le> a1\<close> and the last one otherwise,
  and returns \<open>b_i + t * (b_(i+1) - b_i)\<close> with \<open>t = (v - a_i) / (a_(i+1) - a_i)\<close>;
  \<open>t\<close> is not clamped, so values outside the anchors are extrapolated along the
  segment.  Converting the Japanese value 36 to the German scale gives exactly 47.5.
\<close>

theorem hardness_conversion:
  assumes "a0 < a1" and "a1 < a2"
  shows "interpolateScale v [a0, a1, a2] [b0, b1, b2] =
           Some (if v \<le> a1 then b0 + ((v - a0) / (a1 - a0)) * (b1 - b0)
                 else b1 + ((v - a1) / (a2 - a1)) * (b2 - b1))
         \<and> toGermanScale (Some 36) ''Japan'' = Some 47.5"
proof -
  have "toGermanScale (Some 36) ''Japan'' = Some 47.5"
    by (simp add: toGermanScale_def HARDNESS_SCALES_def GERMANY_def interpolateScale_three
        segmentValue_def)
  with assms show ?thesis
    by (simp add: interpolateScale_three segmentValue_def)
qed

text \<open>The Japanese value 45 lies above the last anchor 44 and is extrapolated beyond 55.\<close>

theorem hardness_conversion_witness:
  "(33::real) < 36 \<and> (36::real) < 44 \<and>
   interpolateScale 45 [33, 36, 44] [40, 47.5, 55] = Some 55.9375"
  using hardness_conversion [of 33 36 44 45 40 "47.5" 55] by simp

section \<open>Ranks found in a table\<close>

lemma findRankFrom_range:
  "findRankFrom i r t = -1 \<or> (i \<le> findRankFrom i r t \<and> findRankFrom i r t < i + int (length t))"
  by (induction t arbitrary: i) (auto, force+)

lemma findRubberRank_range:
  "findRubberRank r t = -1 \<or> (0 \<le> findRubberRank r t \<and> findRubberRank r t < int (length t))"
  using findRankFrom_range [of 0 r t] by (simp add: findRubberRank_def)

lemma findRankFrom_cong:
  "brand r' = brand r \<Longrightarrow> name r' = name r \<Longrightarrow> abbr r' = abbr r \<Longrightarrow>
   findRankFrom i r' t = findRankFrom i r t"
  by (induction t arbitrary: i) auto

lemma findRubberRank_assignRanks [simp]:
  "findRubberRank (assignRanks rks p b r) t = findRubberRank r t"
  unfolding findRubberRank_def
  by (rule findRankFrom_cong) (simp_all add: assignRanks_def Let_def)

lemma assignRanks_ranks:
  "spinRank (assignRanks rks p b r) =
     (if 0 \<le> findRubberRank r (spin rks) then Some (findRubberRank r (spin rks) + 1) else None)"
  "speedRank (assignRanks rks p b r) =
     (if 0 \<le> findRubberRank r (speed rks) then Some (findRubberRank r (speed rks) + 1) else None)"
  "x (assignRanks rks p b r) =
     (if 0 \<le> findRubberRank r (spin rks)
      then Some (real_of_int (int (length (spin rks)) - findRubberRank r (spin rks))) else None)"
  "y (assignRanks rks p b r) =
     (if 0 \<le> findRubberRank r (speed rks)
      then Some (real_of_int (int (length (speed rks)) - findRubberRank r (speed rks))) else None)"
  by (simp_all add: assignRanks_def Let_def)

lemma assignRanks_priority:
  "bestseller (assignRanks rks p b r) = (0 \<le> findRubberRank r b)"
  "priority (assignRanks rks p b r) =
     (if 0 \<le> findRubberRank r b then findRubberRank r b + 1
      else if 0 \<le> findRubberRank r p then int (length b) + findRubberRank r p + 1
      else priority r)"
  by (simp_all add: assignRanks_def Let_def)

lemma priority_buildRubber [simp]: "priority (buildRubber raw) = 999"
  by (simp add: buildRubber_def)

lemma filter_assignRanks:
  "filter (\<lambda>r. x r \<noteq> None \<and> y r \<noteq> None) (map (assignRanks rks p b) data) =
   map (assignRanks rks p b)
     (filter (\<lambda>r. 0 \<le> findRubberRank r (spin rks) \<and> 0 \<le> findRubberRank r (speed rks)) data)"
  by (induction data) (simp_all add: assignRanks_ranks)

lemma loadRubberData_eq:
  "loadRubberData (Body (Some rawItems)) (Body rks) priorityResp bestsellerResp =
     Inr (map (assignRanks rks (tableOf priorityResp) (tableOf bestsellerResp))
            (filter (\<lambda>r. 0 \<le> findRubberRank r (spin rks) \<and> 0 \<le> findRubberRank r (speed rks))
               (map buildRubber (filter (\<lambda>raw. \<not> raw_disabled raw) rawItems))))"
  by (simp only: loadRubberData_def Let_def fetched.case option.case filter_assignRanks)

lemma loadRubberData_Inr:
  assumes "loadRubberData indexResp rankingsResp priorityResp bestsellerResp = Inr rubberData"
  obtains rawItems rks where "indexResp = Body (Some rawItems)" and "rankingsResp = Body rks"
  using assms by (auto simp: loadRubberData_def Let_def split: fetched.splits option.splits)

lemma loadRubberData_member:
  assumes "loadRubberData indexResp rankingsResp priorityResp bestsellerResp = Inr rubberData"
    and "r \<in> set rubberData"
  obtains rks raw where "rankingsResp = Body rks"
    and "r = assignRanks rks (tableOf priorityResp) (tableOf bestsellerResp) (buildRubber raw)"
proof -
  from assms(1) obtain rawItems rks
    where "indexResp = Body (Some rawItems)" and rk: "rankingsResp = Body rks"
    by (rule loadRubberData_Inr)
  with assms have "r \<in> set (map (assignRanks rks (tableOf priorityResp) (tableOf bestsellerResp))
            (filter (\<lambda>r. 0 \<le> findRubberRank r (spin rks) \<and> 0 \<le> findRubberRank r (speed rks))
               (map buildRubber (filter (\<lambda>raw. \<not> raw_disabled raw) rawItems))))"
    by (simp only: loadRubberData_eq sum.inject)
  then obtain raw
    where "r = assignRanks rks (tableOf priorityResp) (tableOf bestsellerResp) (buildRubber raw)"
    by auto
  with rk show thesis by (rule that)
qed

subsection \<open>The example catalogue, loaded\<close>

lemma norm_xiom: "toLowerCase (trim '' xiom'') = ''xiom''" "toLowerCase (trim ''Xiom'') = ''xiom''"
  by (simp_all add: toLowerCase_def trim_def isSpace_def char_of_def bit_Suc_0_iff bit_0)

lemma rank_in_tables:
  "findRubberRank (buildRubber (rawOf '' xiom'' n)) tableCDE =
     (if n = ''C'' then 0 else if n = ''D'' then 1 else if n = ''E'' then 2 else -1)"
  "findRubberRank (buildRubber (rawOf '' xiom'' n)) tableABCDE =
     (if n = ''A'' then 0 else if n = ''B'' then 1 else if n = ''C'' then 2
      else if n = ''D'' then 3 else if n = ''E'' then 4 else -1)"
  "findRubberRank (buildRubber (rawOf '' xiom'' n)) [(''Xiom'', m)] = (if n = m then 0 else -1)"
  "findRubberRank (buildRubber (rawOf '' xiom'' n)) [] = -1"
  by (auto simp add: findRubberRank_def tableCDE_def tableABCDE_def buildRubber_def rawOf_def
      norm_xiom)

lemma exampleData_eq:
  "exampleData =
     [loadedRubber ''C'' 1 3 999 False, loadedRubber ''D'' 2 4 2 False,
      loadedRubber ''E'' 3 5 1 True]"
proof -
  have a:
    "assignRanks exampleRankings [(''Xiom'', ''D'')] [(''Xiom'', ''E'')]
       (buildRubber (rawOf '' xiom'' ''C'')) = loadedRubber ''C'' 1 3 999 False"
    "assignRanks exampleRankings [(''Xiom'', ''D'')] [(''Xiom'', ''E'')]
       (buildRubber (rawOf '' xiom'' ''D'')) = loadedRubber ''D'' 2 4 2 False"
    "assignRanks exampleRankings [(''Xiom'', ''D'')] [(''Xiom'', ''E'')]
       (buildRubber (rawOf '' xiom'' ''E'')) = loadedRubber ''E'' 3 5 1 True"
    by (simp_all only: assignRanks_def Let_def exampleRankings_def rankings.select_convs
          rank_in_tables)
      (simp_all add: buildRubber_def rawOf_def loadedRubber_def tableCDE_def tableABCDE_def)
  have d: "raw_disabled (rawOf b n) = False" for b n by (simp add: rawOf_def)
  have s: "spin exampleRankings = tableCDE" "speed exampleRankings = tableCDE"
    by (simp_all add: exampleRankings_def)
  show ?thesis
    unfolding exampleData_def loadRubberData_eq s
    by (simp add: exampleCatalogue_def tableOf_def d rank_in_tables a)
qed

lemma exampleData_loaded:
  "loadRubberData (Body (Some exampleCatalogue)) (Body exampleRankings)
     (Body [(''Xiom'', ''D'')]) (Body [(''Xiom'', ''E'')]) = Inr exampleData"
  by (simp add: exampleData_def loadRubberData_eq)

section \<open>Rank-to-coordinate projection\<close>

text \<open>
  Claim C6.  A rubber found in both the spin and the speed table gets 1-based ranks
  \<open>sRank\<close> and \<open>vRank\<close> within the table sizes, and the chart coordinates
  \<open>x = spinTableSize - sRank + 1\<close> and \<open>y = speedTableSize - vRank + 1\<close>.  The
  coordinate is strictly decreasing in the rank (any rubber of the same load with a
  larger rank has a smaller coordinate), and rank 1 has the largest coordinate, the
  size of the table.
\<close>

theorem rank_projection:
  assumes "0 \<le> findRubberRank r (spin rks)" and "0 \<le> findRubberRank r (speed rks)"
  shows "\<exists>sRank vRank.
           spinRank (assignRanks rks p b r) = Some sRank \<and>
           speedRank (assignRanks rks p b r) = Some vRank \<and>
           1 \<le> sRank \<and> sRank \<le> int (length (spin rks)) \<and>
           1 \<le> vRank \<and> vRank \<le> int (length (speed rks)) \<and>
           x (assignRanks rks p b r) = Some (real_of_int (int (length (spin rks)) - sRank + 1)) \<and>
           y (assignRanks rks p b r) = Some (real_of_int (int (length (speed rks)) - vRank + 1)) \<and>
           (\<forall>r2 s2. spinRank (assignRanks rks p b r2) = Some s2 \<and> sRank < s2 \<longrightarrow>
                    num (x (assignRanks rks p b r2)) < num (x (assignRanks rks p b r))) \<and>
           (\<forall>r2 v2. speedRank (assignRanks rks p b r2) = Some v2 \<and> vRank < v2 \<longrightarrow>
                    num (y (assignRanks rks p b r2)) < num (y (assignRanks rks p b r))) \<and>
           (sRank = 1 \<longrightarrow> x (assignRanks rks p b r) = Some (real (length (spin rks)))) \<and>
           (vRank = 1 \<longrightarrow> y (assignRanks rks p b r) = Some (real (length (speed rks))))"
proof -
  let ?s = "findRubberRank r (spin rks) + 1" and ?v = "findRubberRank r (speed rks) + 1"
  have rng: "1 \<le> ?s" "?s \<le> int (length (spin rks))" "1 \<le> ?v" "?v \<le> int (length (speed rks))"
    using assms findRubberRank_range [of r "spin rks"] findRubberRank_range [of r "speed rks"]
    by simp_all
  have mono_x: "num (x (assignRanks rks p b r2)) < num (x (assignRanks rks p b r))"
    if "spinRank (assignRanks rks p b r2) = Some s2" "?s < s2" for r2 s2
    using that assms(1) by (simp add: assignRanks_ranks num_def split: if_splits)
  have mono_y: "num (y (assignRanks rks p b r2)) < num (y (assignRanks rks p b r))"
    if "speedRank (assignRanks rks p b r2) = Some v2" "?v < v2" for r2 v2
    using that assms(2) by (simp add: assignRanks_ranks num_def split: if_splits)
  have "spinRank (assignRanks rks p b r) = Some ?s" "speedRank (assignRanks rks p b r) = Some ?v"
    "x (assignRanks rks p b r) = Some (real_of_int (int (length (spin rks)) - ?s + 1))"
    "y (assignRanks rks p b r) = Some (real_of_int (int (length (speed rks)) - ?v + 1))"
    "?s = 1 \<longrightarrow> x (assignRanks rks p b r) = Some (real (length (spin rks)))"
    "?v = 1 \<longrightarrow> y (assignRanks rks p b r) = Some (real (length (speed rks)))"
    using assms by (simp_all add: assignRanks_ranks)
  with rng mono_x mono_y show ?thesis by blast
qed

text \<open>
  In the spin table \<open>[C, D, E]\<close> of size 3 the rubber \<open>D\<close> has the 1-based rank 2
  and gets \<open>x = 3 - 2 + 1 = 2\<close>; \<open>E\<close>, of rank 3, lies below it at \<open>x = 1\<close>.
\<close>

theorem rank_projection_witness:
  "0 \<le> findRubberRank (buildRubber (rawOf '' xiom'' ''D'')) (spin exampleRankings) \<and>
   0 \<le> findRubberRank (buildRubber (rawOf '' xiom'' ''D'')) (speed exampleRankings) \<and>
   length (spin exampleRankings) = 3 \<and>
   spinRank (assignRanks exampleRankings [] [] (buildRubber (rawOf '' xiom'' ''D''))) = Some 2 \<and>
   x (assignRanks exampleRankings [] [] (buildRubber (rawOf '' xiom'' ''D''))) = Some 2 \<and>
   spinRank (assignRanks exampleRankings [] [] (buildRubber (rawOf '' xiom'' ''E''))) = Some 3 \<and>
   num (x (assignRanks exampleRankings [] [] (buildRubber (rawOf '' xiom'' ''E''))))
     < num (x (assignRanks exampleRankings [] [] (buildRubber (rawOf '' xiom'' ''D''))))"
proof -
  let ?D = "buildRubber (rawOf '' xiom'' ''D'')" and ?E = "buildRubber (rawOf '' xiom'' ''E'')"
  have s: "spin exampleRankings = tableCDE" "speed exampleRankings = tableCDE"
    by (simp_all add: exampleRankings_def)
  have h1: "0 \<le> findRubberRank ?D (spin exampleRankings)"
    and h2: "0 \<le> findRubberRank ?D (speed exampleRankings)"
    by (simp_all add: s rank_in_tables)
  have l: "length (spin exampleRankings) = 3" by (simp add: s tableCDE_def)
  have rD: "spinRank (assignRanks exampleRankings [] [] ?D) = Some 2"
    and rE: "spinRank (assignRanks exampleRankings [] [] ?E) = Some 3"
    by (simp_all add: assignRanks_ranks s rank_in_tables)
  from rank_projection [OF h1 h2, of "[]" "[]"] rD
  have "x (assignRanks exampleRankings [] [] ?D) = Some 2"
    and "\<forall>r2 s2. spinRank (assignRanks exampleRankings [] [] r2) = Some s2 \<and> 2 < s2 \<longrightarrow>
           num (x (assignRanks exampleRankings [] [] r2)) < num (x (assignRanks exampleRankings [] [] ?D))"
    by (auto simp: l)
  with rE h1 h2 l rD show ?thesis by auto
qed

section \<open>Missing ranks\<close>

text \<open>
  Claim C7.  When the index and the ranking files load, \<^verbatim>\<open>loadRubberData\<close> returns
  normally (no error), and the visualised set \<^verbatim>\<open>rubberData\<close> consists exactly of
  the enabled items found in both the spin and the speed table, in catalogue order: an
  item missing from either table is left out.  Every item of the set has a spin rank, a
  speed rank and both coordinates.
\<close>

theorem missing_rank_exclusion:
  "\<exists>rubberData.
     loadRubberData (Body (Some rawItems)) (Body rks) priorityResp bestsellerResp = Inr rubberData \<and>
     rubberData =
       map (assignRanks rks (tableOf priorityResp) (tableOf bestsellerResp))
         (filter (\<lambda>r. 0 \<le> findRubberRank r (spin rks) \<and> 0 \<le> findRubberRank r (speed rks))
            (map buildRubber (filter (\<lambda>raw. \<not> raw_disabled raw) rawItems))) \<and>
     (\<forall>r \<in> set rubberData. spinRank r \<noteq> None \<and> speedRank r \<noteq> None \<and>
                              x r \<noteq> None \<and> y r \<noteq> None)"
proof -
  let ?f = "assignRanks rks (tableOf priorityResp) (tableOf bestsellerResp)"
  let ?data = "map buildRubber (filter (\<lambda>raw. \<not> raw_disabled raw) rawItems)"
  let ?found = "\<lambda>r. 0 \<le> findRubberRank r (spin rks) \<and> 0 \<le> findRubberRank r (speed rks)"
  have "\<forall>r \<in> set (map ?f (filter ?found ?data)).
          spinRank r \<noteq> None \<and> speedRank r \<noteq> None \<and> x r \<noteq> None \<and> y r \<noteq> None"
    by (auto simp: assignRanks_ranks)
  then show ?thesis
    by (simp only: loadRubberData_eq) blast
qed

text \<open>
  Of the catalogue \<open>A, B, C, D, E\<close> only \<open>C, D, E\<close> are in the spin and speed tables:
  \<open>A\<close> and \<open>B\<close> are absent from the loaded data, the others carry their ranks.
\<close>

theorem missing_rank_exclusion_witness:
  "loadRubberData (Body (Some exampleCatalogue)) (Body exampleRankings)
     (Body [(''Xiom'', ''D'')]) (Body [(''Xiom'', ''E'')]) = Inr exampleData \<and>
   map raw_name exampleCatalogue = [''A'', ''B'', ''C'', ''D'', ''E''] \<and>
   map name exampleData = [''C'', ''D'', ''E''] \<and>
   map spinRank exampleData = [Some 1, Some 2, Some 3] \<and>
   map speedRank exampleData = [Some 1, Some 2, Some 3]"
  using missing_rank_exclusion [of exampleCatalogue exampleRankings "Body [(''Xiom'', ''D'')]"
      "Body [(''Xiom'', ''E'')]"] exampleData_loaded
  by (simp add: exampleData_eq loadedRubber_def exampleCatalogue_def rawOf_def)

section \<open>Bestsellers come first\<close>

text \<open>
  Claim C10.  After loading with a bestseller table of fewer than 999 entries, a rubber
  \<open>a\<close> found in the bestseller table has the priority ``bestseller index + 1'', a
  rubber \<open>b\<close> not found there has the priority ``length of the bestseller table +
  priority index + 1'' or the default 999, and the priority of \<open>a\<close> is strictly the
  smaller one; so \<open>a\<close> stands before \<open>b\<close> in the list sorted by priority.
\<close>

theorem bestseller_precedence:
  assumes "length (tableOf bestsellerResp) < 999"
    and "loadRubberData indexResp rankingsResp priorityResp bestsellerResp = Inr rubberData"
    and "a \<in> set rubberData" and "b \<in> set rubberData"
    and "bestseller a" and "\<not> bestseller b"
  shows "0 \<le> findRubberRank a (tableOf bestsellerResp) \<and>
         priority a = findRubberRank a (tableOf bestsellerResp) + 1 \<and>
         priority b =
           (if 0 \<le> findRubberRank b (tableOf priorityResp)
            then int (length (tableOf bestsellerResp)) + findRubberRank b (tableOf priorityResp) + 1
            else 999) \<and>
         priority a < priority b \<and>
         (\<forall>i j. i < length rubberData \<and> j < length rubberData \<and>
                sort_key priority rubberData ! i = a \<and> sort_key priority rubberData ! j = b
                \<longrightarrow> i < j)"
proof -
  let ?B = "tableOf bestsellerResp" and ?P = "tableOf priorityResp"
  from assms(2,3) obtain rks ra where a: "a = assignRanks rks ?P ?B (buildRubber ra)"
    by (rule loadRubberData_member)
  from assms(2,4) obtain rks' rb where b: "b = assignRanks rks' ?P ?B (buildRubber rb)"
    by (rule loadRubberData_member)
  from a assms(5) have fa: "0 \<le> findRubberRank a ?B"
    by (simp add: assignRanks_priority)
  with a have pa: "priority a = findRubberRank a ?B + 1"
    by (simp add: assignRanks_priority)
  from b assms(6) have fb: "\<not> 0 \<le> findRubberRank b ?B"
    by (simp add: assignRanks_priority)
  with b have pb: "priority b =
           (if 0 \<le> findRubberRank b ?P then int (length ?B) + findRubberRank b ?P + 1 else 999)"
    by (simp add: assignRanks_priority)
  from fa findRubberRank_range [of a ?B] have "priority a \<le> int (length ?B)"
    by (simp add: pa)
  with pb assms(1) have lt: "priority a < priority b"
    by (simp split: if_splits)
  have "i < j" if "i < length rubberData" "j < length rubberData"
    "sort_key priority rubberData ! i = a" "sort_key priority rubberData ! j = b" for i j
  proof (rule ccontr)
    assume "\<not> i < j"
    then have "j \<le> i" by simp
    moreover have "sorted (map priority (sort_key priority rubberData))"
      by (rule sorted_sort_key)
    ultimately have "map priority (sort_key priority rubberData) ! j
        \<le> map priority (sort_key priority rubberData) ! i"
      using that(1) by (simp add: sorted_iff_nth_mono del: sorted_sort_key)
    with that have "priority b \<le> priority a" by simp
    with lt show False by simp
  qed
  with fa pa pb lt show ?thesis by blast
qed

text \<open>
  In the example, \<open>E\<close> is the bestseller (priority 1), \<open>D\<close> is in the priority table
  (priority 2) and \<open>C\<close> is in neither (priority 999).
\<close>

theorem bestseller_precedence_witness:
  "length (tableOf (Body [(''Xiom'', ''E'')])) < 999 \<and>
   loadRubberData (Body (Some exampleCatalogue)) (Body exampleRankings)
     (Body [(''Xiom'', ''D'')]) (Body [(''Xiom'', ''E'')]) = Inr exampleData \<and>
   exampleData ! 2 \<in> set exampleData \<and> exampleData ! 0 \<in> set exampleData \<and>
   bestseller (exampleData ! 2) \<and> \<not> bestseller (exampleData ! 0) \<and>
   priority (exampleData ! 2) = 1 \<and> priority (exampleData ! 0) = 999 \<and>
   priority (exampleData ! 2) < priority (exampleData ! 0) \<and>
   sort_key priority exampleData ! 0 = exampleData ! 2 \<and>
   sort_key priority exampleData ! 2 = exampleData ! 0"
proof -
  have s: "sort_key priority exampleData ! 0 = exampleData ! 2"
    "sort_key priority exampleData ! 2 = exampleData ! 0"
    by (simp_all add: exampleData_eq loadedRubber_def)
  have h1: "length (tableOf (Body [(''Xiom'', ''E'')])) < 999" by (simp add: tableOf_def)
  have h3: "exampleData ! 2 \<in> set exampleData" and h4: "exampleData ! 0 \<in> set exampleData"
    by (simp_all add: exampleData_eq)
  have h5: "bestseller (exampleData ! 2)" and h6: "\<not> bestseller (exampleData ! 0)"
    by (simp_all add: exampleData_eq loadedRubber_def)
  have p: "priority (exampleData ! 2) = 1" "priority (exampleData ! 0) = 999"
    by (simp_all add: exampleData_eq loadedRubber_def)
  from bestseller_precedence [OF h1 exampleData_loaded h3 h4 h5 h6]
  have "priority (exampleData ! 2) < priority (exampleData ! 0)" by blast
  with h1 exampleData_loaded h3 h4 h5 h6 p s show ?thesis by blast
qed

section \<open>Control tier bucketing\<close>

lemma getControlBounds_le:
  assumes "getControlBoundsFromData rubberData = Some (mn, mx)"
  shows "mn \<le> mx"
proof -
  let ?ranks = "List.map_filter controlRank rubberData"
  from assms have ne: "?ranks \<noteq> []" and mn: "mn = Min (set ?ranks)" and mx: "mx = Max (set ?ranks)"
    by (auto simp: getControlBoundsFromData_def Let_def split: if_splits)
  from ne obtain a where a: "a \<in> set ?ranks" by (cases ?ranks) auto
  then have "Min (set ?ranks) \<le> a" and "a \<le> Max (set ?ranks)" by simp_all
  with mn mx show ?thesis by simp
qed

lemma pct_lt:
  fixes z t :: int
  assumes "0 < t"
  shows "(real_of_int z / real_of_int t < 0.4) = (5 * z < 2 * t)"
    and "(real_of_int z / real_of_int t < 0.8) = (5 * z < 4 * t)"
proof -
  have "(real_of_int z / real_of_int t < 0.4) = (real_of_int (5 * z) < real_of_int (2 * t))"
    using assms by (simp add: field_simps)
  then show "(real_of_int z / real_of_int t < 0.4) = (5 * z < 2 * t)"
    by (simp only: of_int_less_iff)
  have "(real_of_int z / real_of_int t < 0.8) = (real_of_int (5 * z) < real_of_int (4 * t))"
    using assms by (simp add: field_simps)
  then show "(real_of_int z / real_of_int t < 0.8) = (5 * z < 4 * t)"
    by (simp only: of_int_less_iff)
qed

lemma getControlTierFromRank_eq:
  assumes "rankMin st = Some mn" and "rankMax st = Some mx" and "mn \<le> mx"
  shows "getControlTierFromRank st (Some rk) =
           Some (if 5 * max 0 (min (mx - mn + 1 - 1) (rk - mn)) < 2 * (mx - mn + 1) then Easy
                 else if 5 * max 0 (min (mx - mn + 1 - 1) (rk - mn)) < 4 * (mx - mn + 1) then Med
                 else Hard)"
proof -
  have t: "0 < mx - mn + 1" using assms(3) by simp
  then have nt: "(mx - mn + 1 \<le> 0) = False" by simp
  show ?thesis
    unfolding getControlTierFromRank_def assms(1,2)
    by (simp only: Let_def prod.case option.case nt if_False pct_lt [OF t] if_distrib [of Some])
qed

lemma exampleData_bounds: "getControlBoundsFromData exampleData = Some (3, 5)"
  by (simp add: getControlBoundsFromData_def exampleData_eq loadedRubber_def List.map_filter_def)

text \<open>
  Claim C9, as amended.  Once the control filter is initialised from data whose least
  and greatest control ranks are \<open>mn\<close> and \<open>mx\<close>, the tier of a rank \<open>rk\<close> comes
  from the offset \<open>rk - mn\<close> (clamped to \<open>0 \<dots> mx - mn\<close>) normalised over the number
  \<open>mx - mn + 1\<close> of ranks between them: below 40% it is Easy, below 80% Med, otherwise
  Hard.  The normalisation is over the ranks present in the data, not over the size of
  the control table; the two agree when \<open>mn = 1\<close> and the table has \<open>mx\<close> entries.
\<close>

theorem control_tier_bucketing:
  assumes "getControlBoundsFromData rubberData = Some (mn, mx)"
  shows "getControlTierFromRank (initControlToggleFilter st0 rubberData) (Some rk) =
           Some (if 5 * max 0 (min (mx - mn) (rk - mn)) < 2 * (mx - mn + 1) then Easy
                 else if 5 * max 0 (min (mx - mn) (rk - mn)) < 4 * (mx - mn + 1) then Med
                 else Hard) \<and>
         (mn = 1 \<and> 1 \<le> rk \<and> rk \<le> mx \<longrightarrow>
            getControlTierFromRank (initControlToggleFilter st0 rubberData) (Some rk) =
              Some (tierOverTable rk mx))"
proof -
  let ?st = "initControlToggleFilter st0 rubberData"
  from assms have st: "rankMin ?st = Some mn" "rankMax ?st = Some mx"
    by (simp_all add: initControlToggleFilter_def)
  from assms have le: "mn \<le> mx" by (rule getControlBounds_le)
  have eq: "getControlTierFromRank ?st (Some rk) =
           Some (if 5 * max 0 (min (mx - mn) (rk - mn)) < 2 * (mx - mn + 1) then Easy
                 else if 5 * max 0 (min (mx - mn) (rk - mn)) < 4 * (mx - mn + 1) then Med
                 else Hard)"
    using getControlTierFromRank_eq [OF st le, of rk] by simp
  have "getControlTierFromRank ?st (Some rk) = Some (tierOverTable rk mx)"
    if "mn = 1" "1 \<le> rk" "rk \<le> mx"
  proof -
    from that have t: "0 < mx" by simp
    have "tierOverTable rk mx =
            (if 5 * (rk - 1) < 2 * mx then Easy else if 5 * (rk - 1) < 4 * mx then Med else Hard)"
      unfolding tierOverTable_def by (simp only: Let_def pct_lt [OF t])
    with that show ?thesis
      by (simp add: eq)
  qed
  with eq show ?thesis by blast
qed

text \<open>
  In the loaded example the control ranks present are 3, 4 and 5: rank 5 has offset 2
  of 3 ranks and is Med.  In data with the control ranks 1 and 5 of a table of 5, rank 3
  is Med, as it is when normalised over the table.
\<close>

theorem control_tier_bucketing_witness:
  "getControlBoundsFromData exampleData = Some (3, 5) \<and>
   getControlTierFromRank (initControlToggleFilter \<lparr>rankMin = None, rankMax = None\<rparr> exampleData)
     (Some 5) = Some Med \<and>
   getControlBoundsFromData [loadedRubber ''A'' 1 1 999 False, loadedRubber ''E'' 3 5 1 True] =
     Some (1, 5) \<and>
   getControlTierFromRank
     (initControlToggleFilter \<lparr>rankMin = None, rankMax = None\<rparr>
        [loadedRubber ''A'' 1 1 999 False, loadedRubber ''E'' 3 5 1 True])
     (Some 3) = Some (tierOverTable 3 5) \<and>
   tierOverTable 3 5 = Med"
proof -
  have b: "getControlBoundsFromData [loadedRubber ''A'' 1 1 999 False, loadedRubber ''E'' 3 5 1 True]
             = Some (1, 5)"
    by (simp add: getControlBoundsFromData_def loadedRubber_def List.map_filter_def)
  have t: "tierOverTable 3 5 = Med" by (simp add: tierOverTable_def)
  from control_tier_bucketing [OF exampleData_bounds, of "\<lparr>rankMin = None, rankMax = None\<rparr>" 5]
    control_tier_bucketing [OF b, of "\<lparr>rankMin = None, rankMax = None\<rparr>" 3]
    exampleData_bounds b t
  show ?thesis by simp
qed

text \<open>
  The claim as stated fails in the example: the control table has 5 entries, so rank 3
  normalised over the table is \<open>(3 - 1) / 5 = 40%\<close>, which is Med, while the program,
  normalising over the ranks 3 to 5 present in the data, answers Easy.
\<close>

theorem control_tier_counterexample:
  "map controlRank exampleData = [Some 3, Some 4, Some 5] \<and>
   map controlTotal exampleData = [Some 5, Some 5, Some 5] \<and>
   getControlTierFromRank (initControlToggleFilter \<lparr>rankMin = None, rankMax = None\<rparr> exampleData)
     (Some 3) = Some Easy \<and>
   tierOverTable 3 5 = Med"
proof -
  have "getControlTierFromRank (initControlToggleFilter \<lparr>rankMin = None, rankMax = None\<rparr> exampleData)
     (Some 3) = Some Easy"
    by (simp add: initControlToggleFilter_def exampleData_bounds getControlTierFromRank_def)
  moreover have "tierOverTable 3 5 = Med"
    by (simp add: tierOverTable_def)
  ultimately show ?thesis
    by (simp add: exampleData_eq loadedRubber_def)
qed

section \<open>Autoscale bounds and zoom\<close>

subsection \<open>Rounding errors of one axis\<close>

lemma rounds_step:
  assumes "rounds u rnd" and "u \<le> 1 / 100" and "\<bar>t\<bar> \<le> B"
  shows "\<bar>rnd t - t\<bar> \<le> u * B" and "\<bar>rnd t\<bar> \<le> (101 / 100) * B"
proof -
  from assms(1) have u0: "0 \<le> u" and e: "\<bar>rnd t - t\<bar> \<le> u * \<bar>t\<bar>"
    by (simp_all add: rounds_def)
  from assms(3) have B0: "0 \<le> B" by linarith
  from u0 assms(3) have "u * \<bar>t\<bar> \<le> u * B" by (rule mult_left_mono [rotated])
  with e show 1: "\<bar>rnd t - t\<bar> \<le> u * B" by linarith
  from assms(2) B0 have "u * B \<le> (1 / 100) * B" by (rule mult_right_mono)
  with 1 assms(3) show "\<bar>rnd t\<bar> \<le> (101 / 100) * B" by linarith
qed

lemma abs_mult_le1:
  fixes f a :: real
  assumes "\<bar>f\<bar> \<le> 1"
  shows "\<bar>f * a\<bar> \<le> \<bar>a\<bar>"
proof -
  have "\<bar>f * a\<bar> = \<bar>f\<bar> * \<bar>a\<bar>" by (rule abs_mult)
  also have "\<dots> \<le> 1 * \<bar>a\<bar>" using assms by (intro mult_right_mono) simp_all
  finally show ?thesis by simp
qed

text \<open>The quantities computed for one axis, with their rounding errors bounded.\<close>

lemma rescaleAxis_errors:
  fixes rnd :: rounding and rng :: range and u f c :: real
  assumes R: "rounds u rnd" and U: "u \<le> 1 / 100" and f: "0 \<le> f" "f \<le> 1"
  defines "lo \<equiv> fst rng" and "hi \<equiv> snd rng"
  defines "s \<equiv> rnd (hi - lo)"
  defines "p \<equiv> rnd (f * s)"
  defines "xc \<equiv> rnd (lo + p)"
  defines "ns \<equiv> rnd (s * c)"
  defines "q \<equiv> rnd (f * ns)"
  defines "m \<equiv> rnd (1 - f)"
  defines "t \<equiv> rnd (m * ns)"
  defines "lo' \<equiv> rnd (xc - q)"
  defines "hi' \<equiv> rnd (xc + t)"
  defines "X \<equiv> \<bar>lo\<bar>" and "D \<equiv> \<bar>hi - lo\<bar>"
  defines "E \<equiv> \<bar>hi - lo\<bar> * \<bar>c\<bar>"
  shows "rescaleAxis rnd rng f c = (lo', hi')"
    and "\<bar>(lo' + f * (hi' - lo')) - (lo + f * (hi - lo))\<bar> \<le> 6 * u * (X + D + E)"
    and "\<bar>(hi' - lo') - ns\<bar> \<le> 6 * u * (X + D + E)"
proof -
  show "rescaleAxis rnd rng f c = (lo', hi')"
    by (simp add: rescaleAxis_def Let_def lo_def hi_def s_def p_def xc_def ns_def q_def m_def
        t_def lo'_def hi'_def)
  from R have u0: "0 \<le> u" by (simp add: rounds_def)
  have X0: "0 \<le> X" and D0: "0 \<le> D" and E0: "0 \<le> E" by (simp_all add: X_def D_def E_def)
  from f have f1: "\<bar>f\<bar> \<le> 1" and g1: "\<bar>1 - f\<bar> \<le> 1" by simp_all
  note step = rounds_step [OF R U]
  \<comment> \<open>span\<close>
  have "\<bar>hi - lo\<bar> \<le> D" by (simp add: D_def)
  from step [OF this] have e1: "\<bar>s - (hi - lo)\<bar> \<le> u * D" and bs: "\<bar>s\<bar> \<le> (101 / 100) * D"
    by (simp_all add: s_def)
  \<comment> \<open>offset of the anchor\<close>
  from abs_mult_le1 [OF f1, of s] bs have "\<bar>f * s\<bar> \<le> (101 / 100) * D" by linarith
  from step [OF this] D0 have e2: "\<bar>p - f * s\<bar> \<le> u * ((101 / 100) * D)"
    and bp: "\<bar>p\<bar> \<le> (103 / 100) * D"
    by (simp_all add: p_def)
  \<comment> \<open>centre\<close>
  from bp have "\<bar>lo + p\<bar> \<le> X + (103 / 100) * D" by (simp add: X_def)
  from step [OF this] X0 D0 have e3: "\<bar>xc - (lo + p)\<bar> \<le> u * (X + (103 / 100) * D)"
    and bxc: "\<bar>xc\<bar> \<le> (101 / 100) * X + (105 / 100) * D"
    by (simp_all add: xc_def)
  \<comment> \<open>new span\<close>
  have "\<bar>s * c\<bar> = \<bar>s\<bar> * \<bar>c\<bar>" by (rule abs_mult)
  also from bs have "\<dots> \<le> ((101 / 100) * D) * \<bar>c\<bar>" by (intro mult_right_mono) simp_all
  finally have "\<bar>s * c\<bar> \<le> (101 / 100) * E" by (simp add: E_def D_def)
  from step [OF this] E0 have e4: "\<bar>ns - s * c\<bar> \<le> u * ((101 / 100) * E)"
    and bns: "\<bar>ns\<bar> \<le> (103 / 100) * E"
    by (simp_all add: ns_def)
  from abs_mult_le1 [OF f1, of ns] bns have "\<bar>f * ns\<bar> \<le> (103 / 100) * E" by linarith
  from step [OF this] E0 have e5: "\<bar>q - f * ns\<bar> \<le> u * ((103 / 100) * E)"
    and bq: "\<bar>q\<bar> \<le> (105 / 100) * E"
    by (simp_all add: q_def)
  from g1 have "\<bar>1 - f\<bar> \<le> 1" .
  from step [OF this] have e7: "\<bar>m - (1 - f)\<bar> \<le> u" and bm: "\<bar>m\<bar> \<le> 101 / 100"
    by (simp_all add: m_def)
  have "\<bar>m * ns\<bar> = \<bar>m\<bar> * \<bar>ns\<bar>" by (rule abs_mult)
  also from bm bns E0 have "\<dots> \<le> (101 / 100) * ((103 / 100) * E)"
    by (intro mult_mono) simp_all
  finally have "\<bar>m * ns\<bar> \<le> (105 / 100) * E" using E0 by simp
  from step [OF this] E0 have e8: "\<bar>t - m * ns\<bar> \<le> u * ((105 / 100) * E)"
    and bt: "\<bar>t\<bar> \<le> (107 / 100) * E"
    by (simp_all add: t_def)
  from bxc bq have "\<bar>xc - q\<bar> \<le> (101 / 100) * X + (105 / 100) * D + (105 / 100) * E" by linarith
  from step(1) [OF this] have e6:
    "\<bar>lo' - (xc - q)\<bar> \<le> u * ((101 / 100) * X + (105 / 100) * D + (105 / 100) * E)"
    by (simp add: lo'_def)
  from bxc bt have "\<bar>xc + t\<bar> \<le> (101 / 100) * X + (105 / 100) * D + (107 / 100) * E" by linarith
  from step(1) [OF this] have e9:
    "\<bar>hi' - (xc + t)\<bar> \<le> u * ((101 / 100) * X + (105 / 100) * D + (107 / 100) * E)"
    by (simp add: hi'_def)
  have "\<bar>(m - (1 - f)) * ns\<bar> = \<bar>m - (1 - f)\<bar> * \<bar>ns\<bar>" by (rule abs_mult)
  also from e7 bns u0 E0 have "\<dots> \<le> u * ((103 / 100) * E)"
    by (intro mult_mono) simp_all
  finally have e7n: "\<bar>(m - (1 - f)) * ns\<bar> \<le> u * ((103 / 100) * E)" .
  have uX: "0 \<le> u * X" and uD: "0 \<le> u * D" and uE: "0 \<le> u * E"
    using u0 X0 D0 E0 by simp_all
  \<comment> \<open>the anchor\<close>
  have id1: "(lo' + f * (hi' - lo')) - (lo + f * (hi - lo)) =
      f * (s - (hi - lo)) + (p - f * s) + (xc - (lo + p)) - (1 - f) * (q - f * ns)
      + (1 - f) * (lo' - (xc - q)) + f * ((m - (1 - f)) * ns) + f * (t - m * ns)
      + f * (hi' - (xc + t))"
    by (simp add: algebra_simps)
  have "\<bar>(lo' + f * (hi' - lo')) - (lo + f * (hi - lo))\<bar> \<le>
      \<bar>f * (s - (hi - lo))\<bar> + \<bar>p - f * s\<bar> + \<bar>xc - (lo + p)\<bar> + \<bar>(1 - f) * (q - f * ns)\<bar>
      + \<bar>(1 - f) * (lo' - (xc - q))\<bar> + \<bar>f * ((m - (1 - f)) * ns)\<bar> + \<bar>f * (t - m * ns)\<bar>
      + \<bar>f * (hi' - (xc + t))\<bar>"
    unfolding id1 by linarith
  also have "\<dots> \<le> \<bar>s - (hi - lo)\<bar> + \<bar>p - f * s\<bar> + \<bar>xc - (lo + p)\<bar> + \<bar>q - f * ns\<bar>
      + \<bar>lo' - (xc - q)\<bar> + \<bar>(m - (1 - f)) * ns\<bar> + \<bar>t - m * ns\<bar> + \<bar>hi' - (xc + t)\<bar>"
    using abs_mult_le1 [OF f1, of "s - (hi - lo)"] abs_mult_le1 [OF g1, of "q - f * ns"]
      abs_mult_le1 [OF g1, of "lo' - (xc - q)"] abs_mult_le1 [OF f1, of "(m - (1 - f)) * ns"]
      abs_mult_le1 [OF f1, of "t - m * ns"] abs_mult_le1 [OF f1, of "hi' - (xc + t)"]
    by linarith
  also have "\<dots> \<le> 6 * u * (X + D + E)"
    using e1 e2 e3 e5 e6 e7n e8 e9 uX uD uE by (simp add: algebra_simps)
  finally show "\<bar>(lo' + f * (hi' - lo')) - (lo + f * (hi - lo))\<bar> \<le> 6 * u * (X + D + E)" .
  \<comment> \<open>the span\<close>
  have id2: "(hi' - lo') - ns =
      (m - (1 - f)) * ns + (t - m * ns) + (q - f * ns) + (hi' - (xc + t)) - (lo' - (xc - q))"
    by (simp add: algebra_simps)
  have "\<bar>(hi' - lo') - ns\<bar> \<le> \<bar>(m - (1 - f)) * ns\<bar> + \<bar>t - m * ns\<bar> + \<bar>q - f * ns\<bar>
      + \<bar>hi' - (xc + t)\<bar> + \<bar>lo' - (xc - q)\<bar>"
    unfolding id2 by linarith
  also have "\<dots> \<le> 6 * u * (X + D + E)"
    using e5 e6 e7n e8 e9 uX uD uE by (simp add: algebra_simps)
  finally show "\<bar>(hi' - lo') - ns\<bar> \<le> 6 * u * (X + D + E)" .
qed

lemma twoCorners_bounds: "getAutoscaleBounds exact twoCorners = Some ((-4, 106), (-4, 106))"
  by (simp add: getAutoscaleBounds_def twoCorners_def pointRubber_def num_def Let_def exact_def)

text \<open>
  Claim C2.  When the filtered set has autoscale bounds (it is not empty) and the
  current x and y ranges each contain them, a zoom with \<open>scale > 1\<close> is refused:
  \<^verbatim>\<open>computeZoomedRanges\<close> returns \<^verbatim>\<open>null\<close> for every anchor, and \<^verbatim>\<open>zoomChart\<close>
  leaves the ranges of the chart as they are.  This holds for every rounding.
\<close>

theorem zoom_out_refusal:
  assumes "getAutoscaleBounds rnd currentFilteredData = Some (bndX, bndY)"
    and "fst xRange \<le> fst bndX" and "snd bndX \<le> snd xRange"
    and "fst yRange \<le> fst bndY" and "snd bndY \<le> snd yRange"
    and "scale > 1"
  shows "computeZoomedRanges rnd currentFilteredData xRange yRange scale anchorFx anchorFy = None \<and>
         zoomChart rnd currentFilteredData (Some (xRange, yRange)) scale = Some (xRange, yRange)"
proof -
  from assms have cov: "viewCoversDataBounds rnd currentFilteredData xRange yRange"
    by (simp add: viewCoversDataBounds_def)
  have "computeZoomedRanges rnd currentFilteredData xRange yRange scale fx fy = None" for fx fy
    using assms(1,6) cov by (simp add: computeZoomedRanges_def Let_def)
  then show ?thesis by (simp add: zoomChart_def)
qed

text \<open>The window \<open>(-10, 110)\<close> on both axes contains the bounds \<open>(-4, 106)\<close> of the example.\<close>

theorem zoom_out_refusal_witness:
  "getAutoscaleBounds exact twoCorners = Some ((-4, 106), (-4, 106)) \<and>
   computeZoomedRanges exact twoCorners (-10, 110) (-10, 110) 2 0.5 0.5 = None \<and>
   zoomChart exact twoCorners (Some ((-10, 110), (-10, 110))) 2 = Some ((-10, 110), (-10, 110))"
  using zoom_out_refusal [OF twoCorners_bounds, of "(-10, 110)" "(-10, 110)" 2 "0.5" "0.5"]
    twoCorners_bounds
  by simp

subsection \<open>The shape of the result\<close>

text \<open>
  \<^verbatim>\<open>computeZoomedRanges\<close> returns the rescaled ranges, clamped to the autoscale bounds
  exactly when there are bounds and the clamped scale exceeds 1.
\<close>

lemma computeZoomedRanges_eq:
  "computeZoomedRanges rnd d xRange yRange scale fx fy =
     (if rnd (snd xRange - fst xRange) \<le> 0 \<or> rnd (snd yRange - fst yRange) \<le> 0 then None
      else if scale > 1 \<and> getAutoscaleBounds rnd d \<noteq> None \<and> viewCoversDataBounds rnd d xRange yRange
      then None
      else case getAutoscaleBounds rnd d of
             None \<Rightarrow> Some (rescaledRanges rnd d xRange yRange scale fx fy)
           | Some (bndX, bndY) \<Rightarrow>
               if clampedScaleOf rnd d xRange yRange scale > 1
               then Some (clampRangeToBounds (fst (rescaledRanges rnd d xRange yRange scale fx fy)) bndX,
                          clampRangeToBounds (snd (rescaledRanges rnd d xRange yRange scale fx fy)) bndY)
               else Some (rescaledRanges rnd d xRange yRange scale fx fy))"
  by (simp add: computeZoomedRanges_def rescaledRanges_def rescaleAxis_def clampedScaleOf_def Let_def
      split: option.splits prod.splits)

lemma clampRangeToBounds_inside:
  "fst b \<le> fst r \<Longrightarrow> snd r \<le> snd b \<Longrightarrow> clampRangeToBounds r b = r"
  by (simp add: clampRangeToBounds_def max_def min_def prod_eq_iff)

lemma computeZoomedRanges_Some:
  assumes "computeZoomedRanges rnd d xRange yRange scale fx fy = Some w"
  shows "0 < rnd (snd xRange - fst xRange)" and "0 < rnd (snd yRange - fst yRange)"
    and "w = rescaledRanges rnd d xRange yRange scale fx fy \<or>
         (\<exists>bndX bndY. getAutoscaleBounds rnd d = Some (bndX, bndY) \<and>
            1 < clampedScaleOf rnd d xRange yRange scale \<and>
            w = (clampRangeToBounds (fst (rescaledRanges rnd d xRange yRange scale fx fy)) bndX,
                 clampRangeToBounds (snd (rescaledRanges rnd d xRange yRange scale fx fy)) bndY))"
    and "getAutoscaleBounds rnd d = None \<or> clampedScaleOf rnd d xRange yRange scale \<le> 1 \<or>
         (\<exists>bndX bndY. getAutoscaleBounds rnd d = Some (bndX, bndY) \<and>
            fst bndX \<le> fst (fst (rescaledRanges rnd d xRange yRange scale fx fy)) \<and>
            snd (fst (rescaledRanges rnd d xRange yRange scale fx fy)) \<le> snd bndX \<and>
            fst bndY \<le> fst (snd (rescaledRanges rnd d xRange yRange scale fx fy)) \<and>
            snd (snd (rescaledRanges rnd d xRange yRange scale fx fy)) \<le> snd bndY)
         \<Longrightarrow> w = rescaledRanges rnd d xRange yRange scale fx fy"
proof -
  let ?R = "rescaledRanges rnd d xRange yRange scale fx fy"
  from assms show "0 < rnd (snd xRange - fst xRange)" and "0 < rnd (snd yRange - fst yRange)"
    by (auto simp: computeZoomedRanges_eq split: if_splits)
  from assms show "w = ?R \<or>
         (\<exists>bndX bndY. getAutoscaleBounds rnd d = Some (bndX, bndY) \<and>
            1 < clampedScaleOf rnd d xRange yRange scale \<and>
            w = (clampRangeToBounds (fst ?R) bndX, clampRangeToBounds (snd ?R) bndY))"
    by (auto simp: computeZoomedRanges_eq split: if_splits option.splits)
  assume "getAutoscaleBounds rnd d = None \<or> clampedScaleOf rnd d xRange yRange scale \<le> 1 \<or>
         (\<exists>bndX bndY. getAutoscaleBounds rnd d = Some (bndX, bndY) \<and>
            fst bndX \<le> fst (fst ?R) \<and> snd (fst ?R) \<le> snd bndX \<and>
            fst bndY \<le> fst (snd ?R) \<and> snd (snd ?R) \<le> snd bndY)"
  with assms show "w = ?R"
    by (auto simp: computeZoomedRanges_eq clampRangeToBounds_inside split: if_splits option.splits)
qed

lemma rescaledRanges_anchor:
  assumes "rounds u rnd" and "u \<le> 1 / 100"
    and "0 \<le> fx" "fx \<le> 1" "0 \<le> fy" "fy \<le> 1"
  shows "\<bar>fst (pointAt (rescaledRanges rnd d xRange yRange scale fx fy) fx fy)
            - fst (pointAt (xRange, yRange) fx fy)\<bar>
         \<le> 6 * u * (\<bar>fst xRange\<bar> + \<bar>snd xRange - fst xRange\<bar>
                        * (1 + \<bar>clampedScaleOf rnd d xRange yRange scale\<bar>))"
    and "\<bar>snd (pointAt (rescaledRanges rnd d xRange yRange scale fx fy) fx fy)
            - snd (pointAt (xRange, yRange) fx fy)\<bar>
         \<le> 6 * u * (\<bar>fst yRange\<bar> + \<bar>snd yRange - fst yRange\<bar>
                        * (1 + \<bar>clampedScaleOf rnd d xRange yRange scale\<bar>))"
  using rescaleAxis_errors(1,2) [OF assms(1,2,3,4), of xRange "clampedScaleOf rnd d xRange yRange scale"]
    rescaleAxis_errors(1,2) [OF assms(1,2,5,6), of yRange "clampedScaleOf rnd d xRange yRange scale"]
  by (simp_all add: pointAt_def rescaledRanges_def algebra_simps)

subsection \<open>The least span\<close>










subsection \<open>Anchor and least span\<close>

lemma rounds_exact: "rounds 0 exact"
  by (simp add: rounds_def exact_def)

lemma rounds_inflate: "rounds (1 / 1024) inflate"
  unfolding rounds_def inflate_def
proof (intro conjI allI impI)
  show "(0::real) \<le> 1 / 1024" by simp
next
  fix t :: real
  have "t * (1025 / 1024) - t = t / 1024" by (simp add: field_simps)
  then show "\<bar>t * (1025 / 1024) - t\<bar> \<le> 1 / 1024 * \<bar>t\<bar>" by simp
next
  fix s t :: real assume "s \<le> t"
  then show "s * (1025 / 1024) \<le> t * (1025 / 1024)" by simp
qed

text \<open>The example under the inflating arithmetic: the bounds are about \<open>(-4.02, 106.12)\<close>.\<close>

lemma inflate_bounds:
  "getAutoscaleBounds inflate twoCorners =
     Some ((- (4418479083525 / 1099511627776), 116678186782725 / 1099511627776),
           (- (4418479083525 / 1099511627776), 116678186782725 / 1099511627776))"
  by (simp add: getAutoscaleBounds_def twoCorners_def pointRubber_def num_def inflate_def Let_def)

lemma inflate_clampedScale_half:
  "clampedScaleOf inflate twoCorners (0, 100) (0, 100) (1 / 2) = 1 / 2"
  by (simp add: clampedScaleOf_def inflate_bounds Let_def) (simp add: inflate_def)

lemma inflate_zoom_half:
  "computeZoomedRanges inflate twoCorners (0, 100) (0, 100) (1 / 2) (1 / 4) (3 / 4) =
     Some (rescaledRanges inflate twoCorners (0, 100) (0, 100) (1 / 2) (1 / 4) (3 / 4))"
  by (simp add: computeZoomedRanges_eq inflate_bounds inflate_clampedScale_half
      viewCoversDataBounds_def)
     (simp add: inflate_def)



text \<open>
  Claim C1, as amended.  A window returned by \<^verbatim>\<open>computeZoomedRanges\<close> is the rescaled
  window \<open>R\<close>, clipped to the autoscale bounds only when there are bounds and the
  clamped scale \<open>cs\<close> exceeds 1; it is \<open>R\<close> itself when there are no bounds, when
  \<open>cs \<le> 1\<close>, and when \<open>R\<close> lies within the bounds.  Whenever the returned window is
  not clipped, and the anchor fractions are in \<open>[0, 1]\<close>, the data point at the anchor
  fraction of the new window is the point at the anchor fraction of the old one up to
  a small epsilon: when every operation has relative rounding error at most \<open>u\<close>, the
  two points differ on each axis by at most \<open>6 u (|lo| + |hi - lo| (1 + |cs|))\<close>, for the
  old range \<open>(lo, hi)\<close> of that axis; in exact arithmetic (\<open>u = 0\<close>) they are equal.
\<close>

theorem zoom_anchor_invariance:
  fixes rnd :: rounding
  assumes "rounds u rnd" and "u \<le> 1 / 100"
    and "0 \<le> anchorFx" and "anchorFx \<le> 1" and "0 \<le> anchorFy" and "anchorFy \<le> 1"
    and "computeZoomedRanges rnd currentFilteredData xRange yRange scale anchorFx anchorFy = Some w"
  defines "R \<equiv> rescaledRanges rnd currentFilteredData xRange yRange scale anchorFx anchorFy"
    and "cs \<equiv> clampedScaleOf rnd currentFilteredData xRange yRange scale"
  shows "(w = R \<or>
          (\<exists>bndX bndY. getAutoscaleBounds rnd currentFilteredData = Some (bndX, bndY) \<and> 1 < cs \<and>
             w = (clampRangeToBounds (fst R) bndX, clampRangeToBounds (snd R) bndY))) \<and>
         (getAutoscaleBounds rnd currentFilteredData = None \<or> cs \<le> 1 \<or>
          (\<exists>bndX bndY. getAutoscaleBounds rnd currentFilteredData = Some (bndX, bndY) \<and>
             fst bndX \<le> fst (fst R) \<and> snd (fst R) \<le> snd bndX \<and>
             fst bndY \<le> fst (snd R) \<and> snd (snd R) \<le> snd bndY)
          \<longrightarrow> w = R) \<and>
         (w = R \<longrightarrow>
            \<bar>fst (pointAt w anchorFx anchorFy) - fst (pointAt (xRange, yRange) anchorFx anchorFy)\<bar>
              \<le> 6 * u * (\<bar>fst xRange\<bar> + \<bar>snd xRange - fst xRange\<bar> * (1 + \<bar>cs\<bar>)) \<and>
            \<bar>snd (pointAt w anchorFx anchorFy) - snd (pointAt (xRange, yRange) anchorFx anchorFy)\<bar>
              \<le> 6 * u * (\<bar>fst yRange\<bar> + \<bar>snd yRange - fst yRange\<bar> * (1 + \<bar>cs\<bar>))) \<and>
         (w = R \<and> u = 0 \<longrightarrow>
            pointAt w anchorFx anchorFy = pointAt (xRange, yRange) anchorFx anchorFy)"
proof -
  note s = computeZoomedRanges_Some [OF assms(7)]
  note a = rescaledRanges_anchor [OF assms(1-6), of currentFilteredData xRange yRange scale]
  have 1: "w = R \<or>
          (\<exists>bndX bndY. getAutoscaleBounds rnd currentFilteredData = Some (bndX, bndY) \<and> 1 < cs \<and>
             w = (clampRangeToBounds (fst R) bndX, clampRangeToBounds (snd R) bndY))"
    unfolding R_def cs_def by (rule s(3))
  have 2: "getAutoscaleBounds rnd currentFilteredData = None \<or> cs \<le> 1 \<or>
          (\<exists>bndX bndY. getAutoscaleBounds rnd currentFilteredData = Some (bndX, bndY) \<and>
             fst bndX \<le> fst (fst R) \<and> snd (fst R) \<le> snd bndX \<and>
             fst bndY \<le> fst (snd R) \<and> snd (snd R) \<le> snd bndY)
          \<longrightarrow> w = R"
    unfolding R_def cs_def by (rule impI, erule s(4))
  have 3: "\<bar>fst (pointAt w anchorFx anchorFy) - fst (pointAt (xRange, yRange) anchorFx anchorFy)\<bar>
              \<le> 6 * u * (\<bar>fst xRange\<bar> + \<bar>snd xRange - fst xRange\<bar> * (1 + \<bar>cs\<bar>))"
    "\<bar>snd (pointAt w anchorFx anchorFy) - snd (pointAt (xRange, yRange) anchorFx anchorFy)\<bar>
              \<le> 6 * u * (\<bar>fst yRange\<bar> + \<bar>snd yRange - fst yRange\<bar> * (1 + \<bar>cs\<bar>))"
    if "w = R"
    using a that unfolding R_def cs_def by simp_all
  have 4: "pointAt w anchorFx anchorFy = pointAt (xRange, yRange) anchorFx anchorFy"
    if "w = R" "u = 0"
    using 3 [OF that(1)] that(2) by (simp add: prod_eq_iff)
  from 1 2 3 4 show ?thesis by blast
qed

text \<open>
  In exact arithmetic: zooming in by one half about the fraction \<open>(0.25, 0.75)\<close> of the
  window \<open>(0, 100)\<close>, and zooming out by 2 about the centre of the window \<open>(40, 60)\<close>,
  within the bounds \<open>(-4, 106)\<close>.  In the inflating arithmetic, with \<open>u = 1 / 1024\<close>, the
  first zoom keeps the anchor \<open>(25, 75)\<close> within \<open>6 u (0 + 100 (1 + 1 / 2)) = 225 / 256\<close>.
\<close>

theorem zoom_anchor_invariance_witness:
  "rounds 0 exact \<and>
   computeZoomedRanges exact twoCorners (0, 100) (0, 100) 0.5 0.25 0.75
     = Some ((12.5, 62.5), (37.5, 87.5)) \<and>
   pointAt ((12.5, 62.5), (37.5, 87.5)) 0.25 0.75 = pointAt ((0, 100), (0, 100)) 0.25 0.75 \<and>
   computeZoomedRanges exact twoCorners (40, 60) (40, 60) 2 0.5 0.5 = Some ((30, 70), (30, 70)) \<and>
   clampedScaleOf exact twoCorners (40, 60) (40, 60) 2 = 2 \<and>
   pointAt ((30, 70), (30, 70)) 0.5 0.5 = pointAt ((40, 60), (40, 60)) 0.5 0.5 \<and>
   rounds (1 / 1024) inflate \<and>
   (\<exists>w. computeZoomedRanges inflate twoCorners (0, 100) (0, 100) (1 / 2) (1 / 4) (3 / 4) = Some w \<and>
      \<bar>fst (pointAt w (1 / 4) (3 / 4)) - 25\<bar> \<le> 225 / 256 \<and>
      \<bar>snd (pointAt w (1 / 4) (3 / 4)) - 75\<bar> \<le> 225 / 256)"
proof -
  have c: "computeZoomedRanges exact twoCorners (0, 100) (0, 100) 0.5 0.25 0.75
             = Some ((12.5, 62.5), (37.5, 87.5))"
    by (simp add: computeZoomedRanges_def twoCorners_bounds viewCoversDataBounds_def Let_def
        exact_def)
  have rc: "rescaledRanges exact twoCorners (0, 100) (0, 100) 0.5 0.25 0.75
             = ((12.5, 62.5), (37.5, 87.5))"
    by (simp add: rescaledRanges_def rescaleAxis_def clampedScaleOf_def twoCorners_bounds Let_def
        exact_def)
  have d: "computeZoomedRanges exact twoCorners (40, 60) (40, 60) 2 0.5 0.5 = Some ((30, 70), (30, 70))"
    by (simp add: computeZoomedRanges_def twoCorners_bounds viewCoversDataBounds_def Let_def
        clampRangeToBounds_def exact_def)
  have cd: "clampedScaleOf exact twoCorners (40, 60) (40, 60) 2 = 2"
    by (simp add: clampedScaleOf_def twoCorners_bounds Let_def exact_def)
  have rd: "rescaledRanges exact twoCorners (40, 60) (40, 60) 2 0.5 0.5 = ((30, 70), (30, 70))"
    by (simp add: rescaledRanges_def rescaleAxis_def cd Let_def exact_def)
  from zoom_anchor_invariance [OF rounds_exact _ _ _ _ _ c] rc
  have "pointAt ((12.5, 62.5), (37.5, 87.5)) 0.25 0.75 = pointAt ((0, 100), (0, 100)) 0.25 0.75"
    by simp
  moreover from zoom_anchor_invariance [OF rounds_exact _ _ _ _ _ d] rd
  have "pointAt ((30, 70), (30, 70)) 0.5 0.5 = pointAt ((40, 60), (40, 60)) 0.5 0.5"
    by simp
  moreover from zoom_anchor_invariance [OF rounds_inflate _ _ _ _ _ inflate_zoom_half]
  have "\<bar>fst (pointAt (rescaledRanges inflate twoCorners (0, 100) (0, 100) (1 / 2) (1 / 4) (3 / 4))
           (1 / 4) (3 / 4)) - 25\<bar> \<le> 225 / 256 \<and>
      \<bar>snd (pointAt (rescaledRanges inflate twoCorners (0, 100) (0, 100) (1 / 2) (1 / 4) (3 / 4))
           (1 / 4) (3 / 4)) - 75\<bar> \<le> 225 / 256"
    by (simp add: inflate_clampedScale_half pointAt_def)
  with inflate_zoom_half
  have "\<exists>w. computeZoomedRanges inflate twoCorners (0, 100) (0, 100) (1 / 2) (1 / 4) (3 / 4) = Some w \<and>
      \<bar>fst (pointAt w (1 / 4) (3 / 4)) - 25\<bar> \<le> 225 / 256 \<and>
      \<bar>snd (pointAt w (1 / 4) (3 / 4)) - 75\<bar> \<le> 225 / 256"
    by blast
  ultimately show ?thesis using c d cd rounds_exact rounds_inflate by simp
qed

text \<open>
  A zoom-out by 8 about the centre of the window \<open>(0, 2)\<close> is clipped to the bounds
  \<open>(-4, 106)\<close>: the centre of the new window is at 2.5, the centre of the old one at 1.
  All numbers are doubles and every operation on them is exact.
\<close>

theorem zoom_anchor_counterexample:
  "computeZoomedRanges exact twoCorners (0, 2) (0, 2) 8 0.5 0.5 = Some ((-4, 9), (-4, 9)) \<and>
   pointAt ((-4, 9), (-4, 9)) 0.5 0.5 = (2.5, 2.5) \<and>
   pointAt ((0, 2), (0, 2)) 0.5 0.5 = (1, 1) \<and>
   pointAt ((-4, 9), (-4, 9)) 0.5 0.5 \<noteq> pointAt ((0, 2), (0, 2)) 0.5 0.5"
  by (simp add: computeZoomedRanges_def twoCorners_bounds viewCoversDataBounds_def Let_def
      clampRangeToBounds_def pointAt_def exact_def)




section \<open>Thinning of labels\<close>

lemma farEnough_iff: "farEnough rnd dx dy toPx c a = (\<not> withinThresholds rnd dx dy toPx c a)"
  by (auto simp: farEnough_def withinThresholds_def)

lemma thinLoop_foldl:
  "thinLoop rnd dx dy toPx rs vis (map toPx vis) =
     foldl (\<lambda>accepted c. if (\<forall>a \<in> set accepted. farEnough rnd dx dy toPx c a)
                           then accepted @ [c] else accepted) vis rs"
proof (induction rs arbitrary: vis)
  case Nil
  show ?case by simp
next
  case (Cons r rs)
  have ov: "list_ex (\<lambda>occ. \<bar>rnd (fst (toPx r) - fst occ)\<bar> < dx \<and> \<bar>rnd (snd (toPx r) - snd occ)\<bar> < dy)
              (map toPx vis)
            = (\<not> (\<forall>a \<in> set vis. farEnough rnd dx dy toPx r a))"
    by (auto simp: list_ex_iff farEnough_def pixelGap_def not_le)
  show ?case
  proof (cases "\<forall>a \<in> set vis. farEnough rnd dx dy toPx r a")
    case True
    with ov Cons.IH [of "vis @ [r]"] show ?thesis by (auto simp: Let_def)
  next
    case False
    with ov Cons.IH [of vis] show ?thesis by (auto simp: Let_def)
  qed
qed

lemma thinLabels_greedy:
  assumes "0 < rnd (snd xRange - fst xRange)" and "0 < rnd (snd yRange - fst yRange)"
  shows "thinLabels rnd dx dy xRange yRange w h cands =
           greedyAccept (farEnough rnd dx dy (toPixel rnd xRange yRange w h))
             (sort_key priority cands)"
  using assms
    thinLoop_foldl [of rnd dx dy "toPixel rnd xRange yRange w h" "sort_key priority cands" "[]"]
  by (simp add: thinLabels_def greedyAccept_def Let_def)

lemma greedyAccept_Nil [simp]: "greedyAccept clear [] = []"
  by (simp add: greedyAccept_def)

lemma greedyAccept_snoc:
  "greedyAccept clear (cs @ [c]) =
     (if \<forall>a \<in> set (greedyAccept clear cs). clear c a
      then greedyAccept clear cs @ [c] else greedyAccept clear cs)"
  by (simp add: greedyAccept_def)

lemma set_greedyAccept: "set (greedyAccept clear cs) \<subseteq> set cs"
  by (induction cs rule: rev_induct) (auto simp: greedyAccept_snoc)

lemma sorted_greedyAccept:
  "sorted (map f cs) \<Longrightarrow> sorted (map f (greedyAccept clear cs))"
proof (induction cs rule: rev_induct)
  case Nil
  show ?case by simp
next
  case (snoc c cs)
  then have "sorted (map f (greedyAccept clear cs))" and "\<forall>a \<in> set cs. f a \<le> f c"
    by (auto simp: sorted_append)
  with set_greedyAccept [of clear cs] show ?case
    by (auto simp: greedyAccept_snoc sorted_append)
qed

lemma greedyAccept_clear:
  "\<forall>n < length (greedyAccept clear cs).
     \<forall>a \<in> set (take n (greedyAccept clear cs)). clear (greedyAccept clear cs ! n) a"
proof (induction cs rule: rev_induct)
  case Nil
  show ?case by simp
next
  case (snoc c cs)
  show ?case
  proof (cases "\<forall>a \<in> set (greedyAccept clear cs). clear c a")
    case True
    with snoc show ?thesis
      by (auto simp: greedyAccept_snoc nth_append less_Suc_eq)
  next
    case False
    with snoc show ?thesis by (auto simp: greedyAccept_snoc)
  qed
qed

lemma greedyAccept_rejected:
  "c \<in> set cs \<Longrightarrow> c \<notin> set (greedyAccept clear cs) \<Longrightarrow>
   \<exists>a \<in> set (greedyAccept clear cs). \<not> clear c a"
proof (induction cs rule: rev_induct)
  case Nil
  then show ?case by simp
next
  case (snoc d cs)
  show ?case
  proof (cases "\<forall>a \<in> set (greedyAccept clear cs). clear d a")
    case True
    with snoc.prems have "c \<in> set cs" and "c \<notin> set (greedyAccept clear cs)"
      by (auto simp: greedyAccept_snoc)
    then have "\<exists>a \<in> set (greedyAccept clear cs). \<not> clear c a" by (rule snoc.IH)
    with True show ?thesis by (auto simp: greedyAccept_snoc)
  next
    case False
    show ?thesis
    proof (cases "c = d")
      case True
      with False show ?thesis by (auto simp: greedyAccept_snoc)
    next
      case neq: False
      with snoc.prems False have "c \<in> set cs" and "c \<notin> set (greedyAccept clear cs)"
        by (auto simp: greedyAccept_snoc)
      then have "\<exists>a \<in> set (greedyAccept clear cs). \<not> clear c a" by (rule snoc.IH)
      with False show ?thesis by (auto simp: greedyAccept_snoc)
    qed
  qed
qed

lemma greedyAccept_all:
  "\<forall>n < length cs. \<forall>a \<in> set (take n cs). clear (cs ! n) a \<Longrightarrow> greedyAccept clear cs = cs"
proof (induction cs rule: rev_induct)
  case Nil
  show ?case by simp
next
  case (snoc c cs)
  have "\<forall>n < length cs. \<forall>a \<in> set (take n cs). clear (cs ! n) a"
  proof (intro allI impI ballI)
    fix n a assume "n < length cs" "a \<in> set (take n cs)"
    with snoc.prems [rule_format, of n a] show "clear (cs ! n) a"
      by (simp add: nth_append)
  qed
  then have "greedyAccept clear cs = cs" by (rule snoc.IH)
  moreover from snoc.prems [rule_format, of "length cs"] have "\<forall>a \<in> set cs. clear c a"
    by simp
  ultimately show ?case by (simp add: greedyAccept_snoc)
qed

lemma greedyAccept_weaker:
  assumes "\<And>c a. clear2 c a \<Longrightarrow> clear1 c a"
  shows "greedyAccept clear1 (greedyAccept clear2 cs) = greedyAccept clear2 cs"
  by (rule greedyAccept_all) (use greedyAccept_clear [of clear2 cs] assms in blast)

lemma farEnough_mono:
  "dx1 \<le> dx2 \<Longrightarrow> dy1 \<le> dy2 \<Longrightarrow> farEnough rnd dx2 dy2 toPx c a \<Longrightarrow> farEnough rnd dx1 dy1 toPx c a"
  by (auto simp: farEnough_def)

lemma examplePixel [simp]:
  "toPixel exact (0, 128) (0, 128) 128 128 (pointRubber prio px py) = (px, py)"
  by (simp add: toPixel_def pointRubber_def num_def exact_def)

lemma priority_pointRubber [simp]: "priority (pointRubber prio px py) = prio"
  by (simp add: pointRubber_def)


lemma thinLabels_example:
  "thinLabels exact dx dy (0, 128) (0, 128) 128 128 cands =
     thinLoop exact dx dy (toPixel exact (0, 128) (0, 128) 128 128) (sort_key priority cands) [] []"
  by (simp add: thinLabels_def exact_def)



text \<open>
  Claim C5, as amended.  Let neither threshold decrease, on a window whose computed
  spans are positive.  The set accepted with the larger thresholds is a part of the
  candidates; each of its items is far enough, under the larger and under the smaller
  thresholds, from every item accepted before it; every candidate left out is within
  the larger thresholds of an accepted item; and thinning the accepted set again with
  the smaller thresholds returns it unchanged.  This holds for every rounding.  (The
  number of items accepted from the original candidates is not monotone in the
  thresholds.)
\<close>

theorem declutter_threshold_monotonicity:
  fixes rnd :: rounding and xRange yRange :: range and w h dx1 dy1 dx2 dy2 :: real
    and cands :: "rubber list"
  assumes "dx1 \<le> dx2" and "dy1 \<le> dy2"
    and "0 < rnd (snd xRange - fst xRange)" and "0 < rnd (snd yRange - fst yRange)"
  defines "px \<equiv> toPixel rnd xRange yRange w h"
    and "V \<equiv> thinLabels rnd dx2 dy2 xRange yRange w h cands"
  shows "set V \<subseteq> set cands \<and>
         (\<forall>n < length V. \<forall>a \<in> set (take n V).
            farEnough rnd dx2 dy2 px (V ! n) a \<and> farEnough rnd dx1 dy1 px (V ! n) a) \<and>
         (\<forall>c \<in> set cands. c \<notin> set V \<longrightarrow> (\<exists>a \<in> set V. withinThresholds rnd dx2 dy2 px c a)) \<and>
         thinLabels rnd dx1 dy1 xRange yRange w h V = V"
proof -
  let ?s = "sort_key priority cands"
  have V: "V = greedyAccept (farEnough rnd dx2 dy2 px) ?s"
    unfolding V_def px_def using assms(3,4) by (rule thinLabels_greedy)
  have sub: "set V \<subseteq> set cands"
    unfolding V using set_greedyAccept [of "farEnough rnd dx2 dy2 px" ?s] by simp
  have pw2: "\<forall>n < length V. \<forall>a \<in> set (take n V). farEnough rnd dx2 dy2 px (V ! n) a"
    unfolding V by (rule greedyAccept_clear)
  with farEnough_mono [OF assms(1,2)]
  have pw: "\<forall>n < length V. \<forall>a \<in> set (take n V).
            farEnough rnd dx2 dy2 px (V ! n) a \<and> farEnough rnd dx1 dy1 px (V ! n) a"
    by blast
  have rej: "\<exists>a \<in> set V. withinThresholds rnd dx2 dy2 px c a" if "c \<in> set cands" "c \<notin> set V" for c
    using greedyAccept_rejected [of c ?s "farEnough rnd dx2 dy2 px"] that
    unfolding V by (simp add: farEnough_iff)
  have "sorted (map priority V)"
    unfolding V by (rule sorted_greedyAccept) simp
  then have "sort_key priority V = V" by (rule sort_key_id_if_sorted)
  with assms(3,4) have "thinLabels rnd dx1 dy1 xRange yRange w h V =
      greedyAccept (farEnough rnd dx1 dy1 px) V"
    by (simp add: thinLabels_greedy px_def)
  also have "\<dots> = V"
    unfolding V by (rule greedyAccept_weaker) (rule farEnough_mono [OF assms(1,2)])
  finally have re: "thinLabels rnd dx1 dy1 xRange yRange w h V = V" .
  from sub pw rej re show ?thesis by blast
qed

text \<open>
  The selection made with the thresholds 60 and 30 leaves out item 2, which is within
  them of item 1, and is kept whole by the thresholds 55 and 24.
\<close>

theorem declutter_threshold_monotonicity_witness:
  "(55::real) \<le> 60 \<and> (24::real) \<le> 30 \<and>
   0 < exact (snd (0::real, 128::real) - fst (0::real, 128::real)) \<and>
   thinLabels exact 60 30 (0, 128) (0, 128) 128 128
     [pointRubber 1 0 20, pointRubber 2 57 20, pointRubber 3 60 0, pointRubber 4 60 40] =
     [pointRubber 1 0 20, pointRubber 3 60 0, pointRubber 4 60 40] \<and>
   thinLabels exact 55 24 (0, 128) (0, 128) 128 128
     [pointRubber 1 0 20, pointRubber 3 60 0, pointRubber 4 60 40] =
     [pointRubber 1 0 20, pointRubber 3 60 0, pointRubber 4 60 40] \<and>
   withinThresholds exact 60 30 (toPixel exact (0, 128) (0, 128) 128 128)
     (pointRubber 2 57 20) (pointRubber 1 0 20)"
proof -
  have "thinLabels exact 60 30 (0, 128) (0, 128) 128 128
     [pointRubber 1 0 20, pointRubber 2 57 20, pointRubber 3 60 0, pointRubber 4 60 40] =
     [pointRubber 1 0 20, pointRubber 3 60 0, pointRubber 4 60 40]"
    by (simp add: thinLabels_example exact_def)
  moreover have "withinThresholds exact 60 30 (toPixel exact (0, 128) (0, 128) 128 128)
     (pointRubber 2 57 20) (pointRubber 1 0 20)"
    by (simp add: withinThresholds_def pixelGap_def exact_def)
  ultimately show ?thesis
    using declutter_threshold_monotonicity [of 55 60 24 30 exact "(0, 128)" "(0, 128)" 128 128
      "[pointRubber 1 0 20, pointRubber 2 57 20, pointRubber 3 60 0, pointRubber 4 60 40]"]
    by (simp add: exact_def)
qed

text \<open>
  The claim as stated fails: with the thresholds 55 and 24 two of the four items are
  accepted, with the larger thresholds 60 and 30 three are.  Under the larger
  thresholds item 2 is rejected, and items 3 and 4, which only item 2 excluded, come in.
  The pixel positions are the integer coordinates, and every operation is exact.
\<close>

theorem declutter_count_counterexample:
  "(55::real) < 60 \<and> (24::real) < 30 \<and>
   thinLabels exact 55 24 (0, 128) (0, 128) 128 128
     [pointRubber 1 0 20, pointRubber 2 57 20, pointRubber 3 60 0, pointRubber 4 60 40] =
     [pointRubber 1 0 20, pointRubber 2 57 20] \<and>
   thinLabels exact 60 30 (0, 128) (0, 128) 128 128
     [pointRubber 1 0 20, pointRubber 2 57 20, pointRubber 3 60 0, pointRubber 4 60 40] =
     [pointRubber 1 0 20, pointRubber 3 60 0, pointRubber 4 60 40] \<and>
   length [pointRubber 1 0 20, pointRubber 2 57 20] <
     length [pointRubber 1 0 20, pointRubber 3 60 0, pointRubber 4 60 40]"
  by (simp add: thinLabels_example exact_def)

end
